theory Spec2Isabelle
  imports Main
begin

section \<open>Configuration and time\<close>

text \<open>
  \<^verbatim>\<open>app/config/settings.py\<close>: the fields of \<^verbatim>\<open>Settings\<close> that the services read.
  They are loaded from the environment, so they are a parameter of every service.
\<close>

record settings =
  JWT_SECRET_KEY :: string
  JWT_ALGORITHM :: string
  JWT_ACCESS_TOKEN_EXPIRE_MINUTES :: int
  JWT_REFRESH_TOKEN_EXPIRE_DAYS :: int
  REDIS_TTL_SESSION :: int
  REDIS_TTL_INTERACTION :: int
  RATE_LIMIT_REQUESTS :: int
  RATE_LIMIT_PERIOD :: int

text \<open>The defaults written in \<^verbatim>\<open>settings.py\<close>; the secret has no default there.\<close>

definition default_settings :: "string \<Rightarrow> settings" where
  "default_settings secret =
     \<lparr>JWT_SECRET_KEY = secret, JWT_ALGORITHM = ''HS256'',
      JWT_ACCESS_TOKEN_EXPIRE_MINUTES = 60, JWT_REFRESH_TOKEN_EXPIRE_DAYS = 7,
      REDIS_TTL_SESSION = 86400, REDIS_TTL_INTERACTION = 1800,
      RATE_LIMIT_REQUESTS = 100, RATE_LIMIT_PERIOD = 3600\<rparr>"

text \<open>
  A naive \<^verbatim>\<open>datetime\<close> is the number of whole seconds it denotes, read as UTC when it
  comes from \<^verbatim>\<open>datetime.utcnow()\<close>. \<^verbatim>\<open>timedelta\<close> arithmetic is integer addition.
\<close>

type_synonym datetime = int

definition timedelta_minutes :: "int \<Rightarrow> int" where
  "timedelta_minutes m = 60 * m"

definition timedelta_days :: "int \<Rightarrow> int" where
  "timedelta_days d = 86400 * d"

text \<open>
  \<^verbatim>\<open>datetime.fromtimestamp(ts)\<close> with no \<^verbatim>\<open>tz\<close> argument is the naive local time of the
  host: the POSIX timestamp shifted by the host's offset from UTC (in seconds, positive
  east of Greenwich).
\<close>

definition fromtimestamp :: "int \<Rightarrow> int \<Rightarrow> datetime" where
  "fromtimestamp utc_offset ts = ts + utc_offset"

section \<open>Token service (\<^verbatim>\<open>app/services/auth_service.py\<close>)\<close>

text \<open>The claims dictionary that the service signs.\<close>

record payload =
  p_user_id :: string
  p_email :: string
  p_exp :: int
  p_type :: string

text \<open>
  The JWT library is outside the repository. A token string is either the signed
  encoding of a payload under a key and an algorithm, or any other string.
  \<^verbatim>\<open>jwt.encode\<close> turns a \<^verbatim>\<open>datetime\<close> under \<^verbatim>\<open>exp\<close> into its POSIX timestamp;
  \<^verbatim>\<open>jwt.decode\<close> raises \<^verbatim>\<open>JWTError\<close> for a string that is no token, for an algorithm
  outside the accepted list and for a signature under another key, and its
  subclass \<^verbatim>\<open>ExpiredSignatureError\<close> when \<^verbatim>\<open>exp\<close> is before the current second.
\<close>

datatype token = Signed payload string string | Malformed string

datatype jwt_error = JWTError | ExpiredSignatureError

definition jwt_encode :: "payload \<Rightarrow> string \<Rightarrow> string \<Rightarrow> token" where
  "jwt_encode claims key algorithm = Signed claims key algorithm"

fun jwt_decode :: "datetime \<Rightarrow> token \<Rightarrow> string \<Rightarrow> string list \<Rightarrow> jwt_error + payload" where
  "jwt_decode now (Malformed s) key algorithms = Inl JWTError"
| "jwt_decode now (Signed claims k alg) key algorithms =
     (if alg \<notin> set algorithms then Inl JWTError
      else if k \<noteq> key then Inl JWTError
      else if p_exp claims < now then Inl ExpiredSignatureError
      else Inr claims)"

definition create_access_token :: "settings \<Rightarrow> datetime \<Rightarrow> string \<Rightarrow> string \<Rightarrow> token" where
  "create_access_token cfg now user_id email =
     (let expire = now + timedelta_minutes (JWT_ACCESS_TOKEN_EXPIRE_MINUTES cfg);
          payload = \<lparr>p_user_id = user_id, p_email = email, p_exp = expire, p_type = ''access''\<rparr>
      in jwt_encode payload (JWT_SECRET_KEY cfg) (JWT_ALGORITHM cfg))"

definition create_refresh_token :: "settings \<Rightarrow> datetime \<Rightarrow> string \<Rightarrow> string \<Rightarrow> token" where
  "create_refresh_token cfg now user_id email =
     (let expire = now + timedelta_days (JWT_REFRESH_TOKEN_EXPIRE_DAYS cfg);
          payload = \<lparr>p_user_id = user_id, p_email = email, p_exp = expire, p_type = ''refresh''\<rparr>
      in jwt_encode payload (JWT_SECRET_KEY cfg) (JWT_ALGORITHM cfg))"

text \<open>\<^verbatim>\<open>decode_token\<close> catches \<^verbatim>\<open>JWTError\<close> (and so its subclass) and returns \<^verbatim>\<open>None\<close>.\<close>

definition decode_token :: "settings \<Rightarrow> datetime \<Rightarrow> token \<Rightarrow> payload option" where
  "decode_token cfg now token =
     (case jwt_decode now token (JWT_SECRET_KEY cfg) [JWT_ALGORITHM cfg] of
        Inr payload \<Rightarrow> Some payload
      | Inl e \<Rightarrow> None)"

text \<open>
  \<^verbatim>\<open>verify_access_token\<close>: the decoded dictionary always has four keys, so
  \<^verbatim>\<open>not payload\<close> is the test for \<^verbatim>\<open>None\<close>; \<^verbatim>\<open>exp and ...\<close> skips the comparison when
  \<^verbatim>\<open>exp\<close> is \<^verbatim>\<open>0\<close>. The comparison is \<^verbatim>\<open>datetime.utcnow() > datetime.fromtimestamp(exp)\<close>.
\<close>

definition verify_access_token :: "settings \<Rightarrow> int \<Rightarrow> datetime \<Rightarrow> token \<Rightarrow> payload option" where
  "verify_access_token cfg utc_offset now token =
     (case decode_token cfg now token of
        None \<Rightarrow> None
      | Some payload \<Rightarrow>
          if p_type payload \<noteq> ''access'' then None
          else if p_exp payload \<noteq> 0 \<and> now > fromtimestamp utc_offset (p_exp payload) then None
          else Some payload)"

definition verify_refresh_token :: "settings \<Rightarrow> int \<Rightarrow> datetime \<Rightarrow> token \<Rightarrow> payload option" where
  "verify_refresh_token cfg utc_offset now token =
     (case decode_token cfg now token of
        None \<Rightarrow> None
      | Some payload \<Rightarrow>
          if p_type payload \<noteq> ''refresh'' then None
          else if p_exp payload \<noteq> 0 \<and> now > fromtimestamp utc_offset (p_exp payload) then None
          else Some payload)"

section \<open>Utilities (\<^verbatim>\<open>app/utils\<close>)\<close>

text \<open>
  \<^verbatim>\<open>format_timestamp(dt)\<close> is \<^verbatim>\<open>dt.isoformat() + "Z"\<close>: a string that determines the
  \<^verbatim>\<open>datetime\<close> it was made from. The type keeps a formatted timestamp apart from a
  \<^verbatim>\<open>datetime\<close> object.
\<close>

datatype iso8601 = IsoZ datetime

definition format_timestamp :: "datetime \<Rightarrow> iso8601" where
  "format_timestamp dt = IsoZ dt"

text \<open>
  \<^verbatim>\<open>str.isspace\<close> on the code points below 256, which is what a \<open>char\<close> holds here: tab,
  line feed, vertical tab, form feed, carriage return, the four separators \<^verbatim>\<open>0x1c\<close> to
  \<^verbatim>\<open>0x1f\<close>, the space, the next-line control \<^verbatim>\<open>0x85\<close> and the no-break space \<^verbatim>\<open>0xa0\<close>.
  The Unicode spaces from U+1680 on are outside the type.
\<close>

definition isspace :: "char \<Rightarrow> bool" where
  "isspace c =
     (let n = of_char c :: nat
      in (9 \<le> n \<and> n \<le> 13) \<or> (28 \<le> n \<and> n \<le> 32) \<or> n = 133 \<or> n = 160)"

definition strip :: "string \<Rightarrow> string" where
  "strip s = rev (dropWhile isspace (rev (dropWhile isspace s)))"

definition sanitize_message :: "string \<Rightarrow> nat \<Rightarrow> string" where
  "sanitize_message message max_length =
     (let message = strip message
      in if length message > max_length then take max_length message else message)"

text \<open>Python's \<^verbatim>\<open>xs[i:]\<close> for any integer \<^verbatim>\<open>i\<close>: a negative start counts from the end.\<close>

definition slice_from :: "'a list \<Rightarrow> int \<Rightarrow> 'a list" where
  "slice_from xs i =
     (let n = int (length xs);
          start = (if i < 0 then max (n + i) 0 else min i n)
      in drop (nat start) xs)"

text \<open>Truthiness of an optional string: \<^verbatim>\<open>None\<close> and \<^verbatim>\<open>""\<close> are false.\<close>

fun truthy :: "string option \<Rightarrow> bool" where
  "truthy None = False"
| "truthy (Some s) = (s \<noteq> [])"

fun str_of :: "string option \<Rightarrow> string" where
  "str_of None = []"
| "str_of (Some s) = s"

section \<open>Documents and snapshots (\<^verbatim>\<open>app/models/db_models.py\<close>)\<close>

text \<open>
  A message pair as a dictionary. In the Durable Store \<^verbatim>\<open>timestamp\<close> is a \<^verbatim>\<open>datetime\<close>
  and \<^verbatim>\<open>metadata\<close> is present; in a cached interaction and in a history response
  \<^verbatim>\<open>timestamp\<close> is a formatted string, and the cached form has no \<^verbatim>\<open>metadata\<close> key.
\<close>

record message =
  m_message_id :: string
  m_user_message :: string
  m_ai_response :: string
  m_timestamp :: "datetime + iso8601"
  m_metadata :: "(string \<times> string) list option"

record session_doc =
  s_session_id :: string
  s_user_id :: string
  s_interaction_ids :: "string list"
  s_created_at :: datetime
  s_last_active :: datetime
  s_is_active :: bool

record interaction_doc =
  i_interaction_id :: string
  i_session_id :: string
  i_user_id :: string
  i_messages :: "message list"
  i_created_at :: datetime
  i_updated_at :: datetime
  i_last_message_at :: datetime
  i_is_active :: bool

text \<open>The dictionaries that the services put in the cache.\<close>

record cached_session =
  cs_session_id :: string
  cs_user_id :: string
  cs_interaction_ids :: "string list"
  cs_created_at :: iso8601
  cs_last_active :: iso8601

record cached_interaction =
  ci_interaction_id :: string
  ci_session_id :: string
  ci_user_id :: string
  ci_messages :: "message list"
  ci_created_at :: iso8601

record ai_message =
  role :: string
  content :: string

section \<open>The world outside the services\<close>

text \<open>
  Python exceptions by class, each with its \<^verbatim>\<open>str()\<close>. \<^verbatim>\<open>RedisError\<close> and
  \<^verbatim>\<open>PyMongoError\<close> are the drivers' errors, \<^verbatim>\<open>AttributeError\<close> is what a method call on
  a value of the wrong type raises; none of the three is a \<^verbatim>\<open>ValueError\<close>.
\<close>

datatype exn = ValueError string | Exception string | RedisError string | PyMongoError string
  | AttributeError string

fun str_exn :: "exn \<Rightarrow> string" where
  "str_exn (ValueError m) = m"
| "str_exn (Exception m) = m"
| "str_exn (RedisError m) = m"
| "str_exn (PyMongoError m) = m"
| "str_exn (AttributeError m) = m"

text \<open>
  A Redis keyspace: each key holds a value and the instant at which it expires
  (\<open>None\<close>: no time to live). Redis serves a key up to and including that instant, and
  the key is gone once the clock has passed it.
  The three key prefixes \<^verbatim>\<open>session:\<close>, \<^verbatim>\<open>interaction:\<close> and \<^verbatim>\<open>rate_limit:\<close> start with
  different letters, so they split the Redis database into three keyspaces, each indexed
  by the identifier that follows the prefix.
\<close>

type_synonym 'v keyspace = "string \<rightharpoonup> 'v \<times> datetime option"

text \<open>
  The state the services act on: the clock behind \<^verbatim>\<open>datetime.utcnow()\<close>, the random source
  behind \<^verbatim>\<open>uuid.uuid4()\<close> (the draws still to come, and how many were taken), Redis and
  whether it answers, the two MongoDB collections and whether MongoDB answers, and the
  text-generation endpoint (\<open>Inl\<close>: the call raises with that text).
\<close>

record world =
  now :: datetime
  uuid4 :: "nat \<Rightarrow> string"
  uuid_count :: nat
  redis_up :: bool
  redis_session :: "cached_session keyspace"
  redis_interaction :: "cached_interaction keyspace"
  redis_rate_limit :: "int keyspace"
  mongo_up :: bool
  sessions_collection :: "session_doc list"
  interactions_collection :: "interaction_doc list"
  chat_completion :: "ai_message list \<Rightarrow> string + string"

text \<open>
  An operation runs on a world and either returns a value or raises; what it wrote
  before raising stays written.
\<close>

type_synonym 'a io = "world \<Rightarrow> (exn + 'a) \<times> world"

definition io_return :: "'a \<Rightarrow> 'a io" where
  "io_return x w = (Inr x, w)"

definition io_raise :: "exn \<Rightarrow> 'a io" where
  "io_raise e w = (Inl e, w)"

definition io_bind :: "'a io \<Rightarrow> ('a \<Rightarrow> 'b io) \<Rightarrow> 'b io" where
  "io_bind m f w = (case m w of (Inl e, w') \<Rightarrow> (Inl e, w') | (Inr x, w') \<Rightarrow> f x w')"

text \<open>\<^verbatim>\<open>try: m  except Exception as e: h(e)\<close>\<close>

definition io_try :: "'a io \<Rightarrow> (exn \<Rightarrow> 'a io) \<Rightarrow> 'a io" where
  "io_try m h w = (case m w of (Inl e, w') \<Rightarrow> h e w' | (Inr x, w') \<Rightarrow> (Inr x, w'))"

definition get_current_timestamp :: "datetime io" where
  "get_current_timestamp w = (Inr (now w), w)"

definition generate_uuid :: "string io" where
  "generate_uuid w = (Inr (uuid4 w (uuid_count w)), w\<lparr>uuid_count := Suc (uuid_count w)\<rparr>)"

definition generate_session_id :: "string io" where
  "generate_session_id = io_bind generate_uuid (\<lambda>u. io_return (''session_'' @ u))"

definition generate_interaction_id :: "string io" where
  "generate_interaction_id = io_bind generate_uuid (\<lambda>u. io_return (''interaction_'' @ u))"

definition generate_message_id :: "string io" where
  "generate_message_id = io_bind generate_uuid (\<lambda>u. io_return (''message_'' @ u))"

text \<open>The document constructors read the clock once per \<^verbatim>\<open>datetime.utcnow()\<close>.\<close>

definition session_document :: "string \<Rightarrow> string \<Rightarrow> session_doc io" where
  "session_document session_id user_id w =
     (Inr \<lparr>s_session_id = session_id, s_user_id = user_id, s_interaction_ids = [],
           s_created_at = now w, s_last_active = now w, s_is_active = True\<rparr>, w)"

definition interaction_document :: "string \<Rightarrow> string \<Rightarrow> string \<Rightarrow> interaction_doc io" where
  "interaction_document interaction_id session_id user_id w =
     (Inr \<lparr>i_interaction_id = interaction_id, i_session_id = session_id, i_user_id = user_id,
           i_messages = [], i_created_at = now w, i_updated_at = now w,
           i_last_message_at = now w, i_is_active = True\<rparr>, w)"

definition message_pair :: "string \<Rightarrow> string \<Rightarrow> string \<Rightarrow> message io" where
  "message_pair message_id user_message ai_response w =
     (Inr \<lparr>m_message_id = message_id, m_user_message = user_message,
           m_ai_response = ai_response, m_timestamp = Inl (now w), m_metadata = Some []\<rparr>, w)"

section \<open>Redis commands\<close>

definition ks_entry :: "datetime \<Rightarrow> 'v keyspace \<Rightarrow> string \<Rightarrow> ('v \<times> datetime option) option" where
  "ks_entry t ks key =
     (case ks key of
        None \<Rightarrow> None
      | Some (v, None) \<Rightarrow> Some (v, None)
      | Some (v, Some e) \<Rightarrow> if t \<le> e then Some (v, Some e) else None)"

definition ks_get :: "datetime \<Rightarrow> 'v keyspace \<Rightarrow> string \<Rightarrow> 'v option" where
  "ks_get t ks key = map_option fst (ks_entry t ks key)"

definition ks_exists :: "datetime \<Rightarrow> 'v keyspace \<Rightarrow> string \<Rightarrow> bool" where
  "ks_exists t ks key = (ks_entry t ks key \<noteq> None)"

definition ks_setex :: "datetime \<Rightarrow> 'v keyspace \<Rightarrow> string \<Rightarrow> int \<Rightarrow> 'v \<Rightarrow> 'v keyspace" where
  "ks_setex t ks key ttl v = ks(key \<mapsto> (v, Some (t + ttl)))"

definition ks_delete :: "'v keyspace \<Rightarrow> string \<Rightarrow> 'v keyspace" where
  "ks_delete ks key = ks(key := None)"

text \<open>\<^verbatim>\<open>EXPIRE\<close> on a missing key does nothing; a time to live that is not positive deletes the key.\<close>

definition ks_expire :: "datetime \<Rightarrow> 'v keyspace \<Rightarrow> string \<Rightarrow> int \<Rightarrow> 'v keyspace" where
  "ks_expire t ks key ttl =
     (case ks_entry t ks key of
        None \<Rightarrow> ks
      | Some (v, e) \<Rightarrow> if ttl \<le> 0 then ks(key := None) else ks(key \<mapsto> (v, Some (t + ttl))))"

text \<open>\<^verbatim>\<open>INCR\<close> keeps the time to live of the key; on a missing key it stores 1 with none.\<close>

definition ks_incr :: "datetime \<Rightarrow> int keyspace \<Rightarrow> string \<Rightarrow> int keyspace" where
  "ks_incr t ks key =
     (case ks_entry t ks key of
        None \<Rightarrow> ks(key \<mapsto> (1, None))
      | Some (v, e) \<Rightarrow> ks(key \<mapsto> (v + 1, e)))"

text \<open>\<^verbatim>\<open>TTL\<close>: \<open>-2\<close> for a missing key, \<open>-1\<close> for a key with no time to live.\<close>

definition ks_ttl :: "datetime \<Rightarrow> 'v keyspace \<Rightarrow> string \<Rightarrow> int" where
  "ks_ttl t ks key =
     (case ks_entry t ks key of
        None \<Rightarrow> - 2
      | Some (v, None) \<Rightarrow> - 1
      | Some (v, Some e) \<Rightarrow> e - t)"

text \<open>Every command raises when Redis does not answer; \<^verbatim>\<open>SETEX\<close> refuses a time to live that is not positive.\<close>

definition redis_cmd :: "(world \<Rightarrow> 'a \<times> world) \<Rightarrow> 'a io" where
  "redis_cmd f w =
     (if redis_up w then (case f w of (x, w') \<Rightarrow> (Inr x, w'))
      else (Inl (RedisError ''Error connecting to Redis''), w))"

definition redis_setex_check :: "int \<Rightarrow> unit io \<Rightarrow> unit io" where
  "redis_setex_check ttl m =
     (if ttl \<le> 0 then io_bind (redis_cmd (\<lambda>w. ((), w)))
                        (\<lambda>_. io_raise (RedisError ''invalid expire time in setex''))
      else m)"

definition session_get :: "string \<Rightarrow> cached_session option io" where
  "session_get sid = redis_cmd (\<lambda>w. (ks_get (now w) (redis_session w) sid, w))"

definition session_setex :: "string \<Rightarrow> int \<Rightarrow> cached_session \<Rightarrow> unit io" where
  "session_setex sid ttl v =
     redis_setex_check ttl
       (redis_cmd (\<lambda>w. ((), w\<lparr>redis_session := ks_setex (now w) (redis_session w) sid ttl v\<rparr>)))"

definition session_delete :: "string \<Rightarrow> unit io" where
  "session_delete sid = redis_cmd (\<lambda>w. ((), w\<lparr>redis_session := ks_delete (redis_session w) sid\<rparr>))"

definition session_exists :: "string \<Rightarrow> bool io" where
  "session_exists sid = redis_cmd (\<lambda>w. (ks_exists (now w) (redis_session w) sid, w))"

definition session_expire :: "string \<Rightarrow> int \<Rightarrow> unit io" where
  "session_expire sid ttl =
     redis_cmd (\<lambda>w. ((), w\<lparr>redis_session := ks_expire (now w) (redis_session w) sid ttl\<rparr>))"

definition interaction_get :: "string \<Rightarrow> cached_interaction option io" where
  "interaction_get iid = redis_cmd (\<lambda>w. (ks_get (now w) (redis_interaction w) iid, w))"

definition interaction_setex :: "string \<Rightarrow> int \<Rightarrow> cached_interaction \<Rightarrow> unit io" where
  "interaction_setex iid ttl v =
     redis_setex_check ttl
       (redis_cmd (\<lambda>w. ((), w\<lparr>redis_interaction := ks_setex (now w) (redis_interaction w) iid ttl v\<rparr>)))"

definition interaction_delete :: "string \<Rightarrow> unit io" where
  "interaction_delete iid =
     redis_cmd (\<lambda>w. ((), w\<lparr>redis_interaction := ks_delete (redis_interaction w) iid\<rparr>))"

definition interaction_exists :: "string \<Rightarrow> bool io" where
  "interaction_exists iid = redis_cmd (\<lambda>w. (ks_exists (now w) (redis_interaction w) iid, w))"

definition interaction_expire :: "string \<Rightarrow> int \<Rightarrow> unit io" where
  "interaction_expire iid ttl =
     redis_cmd (\<lambda>w. ((), w\<lparr>redis_interaction := ks_expire (now w) (redis_interaction w) iid ttl\<rparr>))"

definition rate_limit_get :: "string \<Rightarrow> int option io" where
  "rate_limit_get uid = redis_cmd (\<lambda>w. (ks_get (now w) (redis_rate_limit w) uid, w))"

definition rate_limit_setex :: "string \<Rightarrow> int \<Rightarrow> int \<Rightarrow> unit io" where
  "rate_limit_setex uid ttl v =
     redis_setex_check ttl
       (redis_cmd (\<lambda>w. ((), w\<lparr>redis_rate_limit := ks_setex (now w) (redis_rate_limit w) uid ttl v\<rparr>)))"

definition rate_limit_incr :: "string \<Rightarrow> unit io" where
  "rate_limit_incr uid =
     redis_cmd (\<lambda>w. ((), w\<lparr>redis_rate_limit := ks_incr (now w) (redis_rate_limit w) uid\<rparr>))"

definition rate_limit_ttl :: "string \<Rightarrow> int io" where
  "rate_limit_ttl uid = redis_cmd (\<lambda>w. (ks_ttl (now w) (redis_rate_limit w) uid, w))"

section \<open>Cache layer (\<^verbatim>\<open>app/services/cache_service.py\<close>)\<close>

text \<open>
  Each method is a \<^verbatim>\<open>try\<close> around its Redis commands whose handler logs and returns a
  fixed value. Serialising a snapshot to JSON and back gives the snapshot.
\<close>

definition cache_session :: "settings \<Rightarrow> string \<Rightarrow> cached_session \<Rightarrow> bool io" where
  "cache_session cfg session_id session_data =
     io_try (io_bind (session_setex session_id (REDIS_TTL_SESSION cfg) session_data)
               (\<lambda>_. io_return True))
            (\<lambda>e. io_return False)"

definition cache_get_session :: "string \<Rightarrow> cached_session option io" where
  "cache_get_session session_id =
     io_try (io_bind (session_get session_id) (\<lambda>value. io_return value))
            (\<lambda>e. io_return None)"

definition cache_delete_session :: "string \<Rightarrow> bool io" where
  "cache_delete_session session_id =
     io_try (io_bind (session_delete session_id) (\<lambda>_. io_return True))
            (\<lambda>e. io_return False)"

definition update_session_activity :: "settings \<Rightarrow> string \<Rightarrow> bool io" where
  "update_session_activity cfg session_id =
     io_try (io_bind (session_exists session_id)
               (\<lambda>exists. if exists
                          then io_bind (session_expire session_id (REDIS_TTL_SESSION cfg))
                                 (\<lambda>_. io_return True)
                          else io_return False))
            (\<lambda>e. io_return False)"

definition cache_interaction :: "settings \<Rightarrow> string \<Rightarrow> cached_interaction \<Rightarrow> bool io" where
  "cache_interaction cfg interaction_id interaction_data =
     io_try (io_bind (interaction_setex interaction_id (REDIS_TTL_INTERACTION cfg) interaction_data)
               (\<lambda>_. io_return True))
            (\<lambda>e. io_return False)"

definition cache_get_interaction :: "settings \<Rightarrow> string \<Rightarrow> cached_interaction option io" where
  "cache_get_interaction cfg interaction_id =
     io_try (io_bind (interaction_get interaction_id)
               (\<lambda>value. case value of
                    Some data \<Rightarrow>
                      io_bind (interaction_expire interaction_id (REDIS_TTL_INTERACTION cfg))
                        (\<lambda>_. io_return (Some data))
                  | None \<Rightarrow> io_return None))
            (\<lambda>e. io_return None)"

definition cache_delete_interaction :: "string \<Rightarrow> bool io" where
  "cache_delete_interaction interaction_id =
     io_try (io_bind (interaction_delete interaction_id) (\<lambda>_. io_return True))
            (\<lambda>e. io_return False)"

definition check_interaction_expired :: "string \<Rightarrow> bool io" where
  "check_interaction_expired interaction_id =
     io_try (io_bind (interaction_exists interaction_id) (\<lambda>exists. io_return (\<not> exists)))
            (\<lambda>e. io_return True)"

definition check_rate_limit :: "settings \<Rightarrow> string \<Rightarrow> bool io" where
  "check_rate_limit cfg user_id =
     io_try (io_bind (rate_limit_get user_id)
               (\<lambda>current. case current of
                    None \<Rightarrow>
                      io_bind (rate_limit_setex user_id (RATE_LIMIT_PERIOD cfg) 1)
                        (\<lambda>_. io_return True)
                  | Some current_count \<Rightarrow>
                      if current_count \<ge> RATE_LIMIT_REQUESTS cfg then io_return False
                      else io_bind (rate_limit_incr user_id) (\<lambda>_. io_return True)))
            (\<lambda>e. io_return True)"

section \<open>MongoDB commands\<close>

text \<open>
  A collection is the list of its documents in insertion order. \<^verbatim>\<open>find_one\<close>,
  \<^verbatim>\<open>update_one\<close> and \<^verbatim>\<open>delete_one\<close> act on the first document that matches the filter.
  \<^verbatim>\<open>main.py\<close> declares \<^verbatim>\<open>session_id\<close> and \<^verbatim>\<open>interaction_id\<close> unique, so an insert
  under an identifier already present raises. Every command raises when MongoDB does not
  answer.
\<close>

fun update_first :: "('a \<Rightarrow> bool) \<Rightarrow> ('a \<Rightarrow> 'a) \<Rightarrow> 'a list \<Rightarrow> 'a list" where
  "update_first P f [] = []"
| "update_first P f (x # xs) = (if P x then f x # xs else x # update_first P f xs)"

fun delete_first :: "('a \<Rightarrow> bool) \<Rightarrow> 'a list \<Rightarrow> 'a list" where
  "delete_first P [] = []"
| "delete_first P (x # xs) = (if P x then xs else x # delete_first P xs)"

definition mongo_cmd :: "(world \<Rightarrow> 'a \<times> world) \<Rightarrow> 'a io" where
  "mongo_cmd f w =
     (if mongo_up w then (case f w of (x, w') \<Rightarrow> (Inr x, w'))
      else (Inl (PyMongoError ''ServerSelectionTimeoutError''), w))"

definition sessions_insert_one :: "session_doc \<Rightarrow> unit io" where
  "sessions_insert_one doc =
     io_bind (mongo_cmd (\<lambda>w. (find (\<lambda>d. s_session_id d = s_session_id doc) (sessions_collection w), w)))
       (\<lambda>clash. case clash of
            Some d \<Rightarrow> io_raise (PyMongoError ''E11000 duplicate key error'')
          | None \<Rightarrow>
              mongo_cmd (\<lambda>w. ((), w\<lparr>sessions_collection := sessions_collection w @ [doc]\<rparr>)))"

definition sessions_find_one :: "(session_doc \<Rightarrow> bool) \<Rightarrow> session_doc option io" where
  "sessions_find_one P = mongo_cmd (\<lambda>w. (find P (sessions_collection w), w))"

definition sessions_update_one :: "(session_doc \<Rightarrow> bool) \<Rightarrow> (session_doc \<Rightarrow> session_doc) \<Rightarrow> unit io" where
  "sessions_update_one P f =
     mongo_cmd (\<lambda>w. ((), w\<lparr>sessions_collection := update_first P f (sessions_collection w)\<rparr>))"

definition sessions_delete_one :: "(session_doc \<Rightarrow> bool) \<Rightarrow> unit io" where
  "sessions_delete_one P =
     mongo_cmd (\<lambda>w. ((), w\<lparr>sessions_collection := delete_first P (sessions_collection w)\<rparr>))"

definition interactions_insert_one :: "interaction_doc \<Rightarrow> unit io" where
  "interactions_insert_one doc =
     io_bind (mongo_cmd (\<lambda>w. (find (\<lambda>d. i_interaction_id d = i_interaction_id doc)
                                   (interactions_collection w), w)))
       (\<lambda>clash. case clash of
            Some d \<Rightarrow> io_raise (PyMongoError ''E11000 duplicate key error'')
          | None \<Rightarrow>
              mongo_cmd (\<lambda>w. ((), w\<lparr>interactions_collection := interactions_collection w @ [doc]\<rparr>)))"

definition interactions_find_one :: "(interaction_doc \<Rightarrow> bool) \<Rightarrow> interaction_doc option io" where
  "interactions_find_one P = mongo_cmd (\<lambda>w. (find P (interactions_collection w), w))"

definition interactions_update_one ::
    "(interaction_doc \<Rightarrow> bool) \<Rightarrow> (interaction_doc \<Rightarrow> interaction_doc) \<Rightarrow> unit io" where
  "interactions_update_one P f =
     mongo_cmd (\<lambda>w. ((), w\<lparr>interactions_collection := update_first P f (interactions_collection w)\<rparr>))"

definition interactions_delete_one :: "(interaction_doc \<Rightarrow> bool) \<Rightarrow> unit io" where
  "interactions_delete_one P =
     mongo_cmd (\<lambda>w. ((), w\<lparr>interactions_collection := delete_first P (interactions_collection w)\<rparr>))"

section \<open>Response generator (\<^verbatim>\<open>app/services/ai_service.py\<close>)\<close>

definition generate_response :: "ai_message list \<Rightarrow> string io" where
  "generate_response messages =
     io_try (\<lambda>w. case chat_completion w messages of
                    Inl err \<Rightarrow> (Inl (Exception err), w)
                  | Inr ai_response \<Rightarrow> (Inr ai_response, w))
            (\<lambda>e. io_raise (Exception (''Failed to generate AI response: '' @ str_exn e)))"

fun format_conversation_history :: "message list \<Rightarrow> string \<Rightarrow> ai_message list" where
  "format_conversation_history [] current_message =
     [\<lparr>role = ''user'', content = current_message\<rparr>]"
| "format_conversation_history (msg # messages_history) current_message =
     \<lparr>role = ''user'', content = m_user_message msg\<rparr> #
     \<lparr>role = ''assistant'', content = m_ai_response msg\<rparr> #
     format_conversation_history messages_history current_message"

section \<open>Session and interaction manager (\<^verbatim>\<open>app/services/chat_service.py\<close>)\<close>

text \<open>The dictionaries the manager returns.\<close>

record session_created =
  sc_session_id :: string
  sc_user_id :: string
  sc_created_at :: iso8601

record interaction_created =
  ic_interaction_id :: string
  ic_session_id :: string
  ic_created_at :: iso8601
  ic_messages_count :: nat

record message_sent =
  ms_session_id :: string
  ms_interaction_id :: string
  ms_message_id :: string
  ms_user_message :: string
  ms_ai_response :: string
  ms_timestamp :: iso8601

record chat_history =
  ch_interaction_id :: string
  ch_session_id :: string
  ch_messages :: "message list"
  ch_total_messages :: nat
  ch_created_at :: iso8601
  ch_last_updated :: iso8601

text \<open>
  \<^verbatim>\<open>format_timestamp(msg["timestamp"])\<close>: a \<^verbatim>\<open>datetime\<close> is formatted, a string has no
  \<^verbatim>\<open>isoformat\<close>.
\<close>

definition format_timestamp_field :: "datetime + iso8601 \<Rightarrow> iso8601 io" where
  "format_timestamp_field ts =
     (case ts of
        Inl dt \<Rightarrow> io_return (format_timestamp dt)
      | Inr s \<Rightarrow> io_raise (AttributeError ''str object has no attribute isoformat''))"

definition create_session :: "settings \<Rightarrow> string \<Rightarrow> session_created io" where
  "create_session cfg user_id =
     io_try
       (io_bind generate_session_id (\<lambda>session_id.
        io_bind (session_document session_id user_id) (\<lambda>session_doc.
        io_bind (sessions_insert_one session_doc) (\<lambda>_.
        io_bind (cache_session cfg session_id
                   \<lparr>cs_session_id = session_id, cs_user_id = user_id, cs_interaction_ids = [],
                    cs_created_at = format_timestamp (s_created_at session_doc),
                    cs_last_active = format_timestamp (s_last_active session_doc)\<rparr>) (\<lambda>_.
        io_return \<lparr>sc_session_id = session_id, sc_user_id = user_id,
                   sc_created_at = format_timestamp (s_created_at session_doc)\<rparr>)))))
       (\<lambda>e. io_raise e)"

definition get_session :: "settings \<Rightarrow> string \<Rightarrow> string \<Rightarrow> cached_session option io" where
  "get_session cfg session_id user_id =
     io_try
       (io_bind (cache_get_session session_id) (\<lambda>cached.
        case (case cached of Some c \<Rightarrow> if cs_user_id c = user_id then Some c else None
                           | None \<Rightarrow> None) of
          Some c \<Rightarrow>
            io_bind (update_session_activity cfg session_id) (\<lambda>_. io_return (Some c))
        | None \<Rightarrow>
            io_bind (sessions_find_one
                       (\<lambda>d. s_session_id d = session_id \<and> s_user_id d = user_id)) (\<lambda>session.
            case session of
              None \<Rightarrow> io_return None
            | Some session \<Rightarrow>
                io_bind get_current_timestamp (\<lambda>t.
                io_bind (sessions_update_one (\<lambda>d. s_session_id d = session_id)
                           (\<lambda>d. d\<lparr>s_last_active := t\<rparr>)) (\<lambda>_.
                io_bind get_current_timestamp (\<lambda>t'.
                let session_data =
                      \<lparr>cs_session_id = s_session_id session, cs_user_id = s_user_id session,
                       cs_interaction_ids = s_interaction_ids session,
                       cs_created_at = format_timestamp (s_created_at session),
                       cs_last_active = format_timestamp t'\<rparr>
                in io_bind (cache_session cfg session_id session_data) (\<lambda>_.
                   io_return (Some session_data))))))))
       (\<lambda>e. io_return None)"

definition create_interaction :: "settings \<Rightarrow> string \<Rightarrow> string \<Rightarrow> interaction_created io" where
  "create_interaction cfg session_id user_id =
     io_try
       (io_bind generate_interaction_id (\<lambda>interaction_id.
        io_bind (interaction_document interaction_id session_id user_id) (\<lambda>interaction_doc.
        io_bind (interactions_insert_one interaction_doc) (\<lambda>_.
        io_bind get_current_timestamp (\<lambda>t.
        io_bind (sessions_update_one (\<lambda>d. s_session_id d = session_id)
                   (\<lambda>d. d\<lparr>s_interaction_ids := s_interaction_ids d @ [interaction_id],
                           s_last_active := t\<rparr>)) (\<lambda>_.
        io_bind (cache_interaction cfg interaction_id
                   \<lparr>ci_interaction_id = interaction_id, ci_session_id = session_id,
                    ci_user_id = user_id, ci_messages = [],
                    ci_created_at = format_timestamp (i_created_at interaction_doc)\<rparr>) (\<lambda>_.
        io_bind (cache_delete_session session_id) (\<lambda>_.
        io_return \<lparr>ic_interaction_id = interaction_id, ic_session_id = session_id,
                   ic_created_at = format_timestamp (i_created_at interaction_doc),
                   ic_messages_count = 0\<rparr>))))))))
       (\<lambda>e. io_raise e)"

definition get_interaction_messages :: "settings \<Rightarrow> string \<Rightarrow> message list io" where
  "get_interaction_messages cfg interaction_id =
     io_try
       (io_bind (cache_get_interaction cfg interaction_id) (\<lambda>cached.
        case cached of
          Some c \<Rightarrow> io_return (ci_messages c)
        | None \<Rightarrow>
            io_bind (interactions_find_one (\<lambda>d. i_interaction_id d = interaction_id))
              (\<lambda>interaction.
               case interaction of
                 None \<Rightarrow> io_return []
               | Some interaction \<Rightarrow> io_return (i_messages interaction))))
       (\<lambda>e. io_return [])"

text \<open>
  \<^verbatim>\<open>send_message\<close>. The handler re-raises a \<^verbatim>\<open>ValueError\<close> as it is and wraps anything
  else in \<^verbatim>\<open>Exception("Failed to send message: ...")\<close>.
\<close>

definition send_message ::
    "settings \<Rightarrow> string \<Rightarrow> string \<Rightarrow> string option \<Rightarrow> string option \<Rightarrow> message_sent io" where
  "send_message cfg user_id message session_id interaction_id =
     io_try
       (let message = sanitize_message message 10000 in
        io_bind (if \<not> truthy session_id
                 then io_bind (create_session cfg user_id)
                        (\<lambda>session. io_return (sc_session_id session))
                 else io_bind (get_session cfg (str_of session_id) user_id)
                        (\<lambda>session. case session of
                             None \<Rightarrow> io_raise (ValueError ''Invalid session_id'')
                           | Some s \<Rightarrow> io_return (str_of session_id))) (\<lambda>session_id.
        io_bind (if truthy interaction_id
                 then io_bind (check_interaction_expired (str_of interaction_id))
                        (\<lambda>is_expired.
                           if is_expired
                           then io_raise (ValueError
                                  ''Interaction expired. Please create a new interaction.'')
                           else io_return ())
                 else io_return ()) (\<lambda>_.
        io_bind (if \<not> truthy interaction_id
                 then io_bind (create_interaction cfg session_id user_id)
                        (\<lambda>interaction. io_return (ic_interaction_id interaction))
                 else io_return (str_of interaction_id)) (\<lambda>interaction_id.
        io_bind (get_interaction_messages cfg interaction_id) (\<lambda>history.
        io_bind (generate_response (format_conversation_history history message)) (\<lambda>ai_response.
        io_bind generate_message_id (\<lambda>message_id.
        io_bind (message_pair message_id message ai_response) (\<lambda>msg_pair.
        io_bind get_current_timestamp (\<lambda>t.
        io_bind get_current_timestamp (\<lambda>t'.
        io_bind (interactions_update_one (\<lambda>d. i_interaction_id d = interaction_id)
                   (\<lambda>d. d\<lparr>i_messages := i_messages d @ [msg_pair],
                           i_updated_at := t, i_last_message_at := t'\<rparr>)) (\<lambda>_.
        io_bind (cache_get_interaction cfg interaction_id) (\<lambda>cached_interaction.
        io_bind (case cached_interaction of
                   None \<Rightarrow> io_return ()
                 | Some c \<Rightarrow>
                     io_bind (format_timestamp_field (m_timestamp msg_pair)) (\<lambda>ts.
                     io_bind (cache_interaction cfg interaction_id
                                (c\<lparr>ci_messages := ci_messages c @
                                     [\<lparr>m_message_id = message_id, m_user_message = message,
                                       m_ai_response = ai_response, m_timestamp = Inr ts,
                                       m_metadata = None\<rparr>]\<rparr>)) (\<lambda>_.
                     io_return ()))) (\<lambda>_.
        io_bind (format_timestamp_field (m_timestamp msg_pair)) (\<lambda>ts.
        io_return \<lparr>ms_session_id = session_id, ms_interaction_id = interaction_id,
                   ms_message_id = message_id, ms_user_message = message,
                   ms_ai_response = ai_response, ms_timestamp = ts\<rparr>))))))))))))))
       (\<lambda>e. case e of
              ValueError m \<Rightarrow> io_raise (ValueError m)
            | _ \<Rightarrow> io_raise (Exception (''Failed to send message: '' @ str_exn e)))"

text \<open>
  The list comprehension of the fallback path of \<^verbatim>\<open>get_chat_history\<close>: each stored pair
  with its timestamp formatted and \<^verbatim>\<open>msg.get("metadata", {})\<close>.
\<close>

fun format_messages :: "message list \<Rightarrow> message list io" where
  "format_messages [] = io_return []"
| "format_messages (msg # msgs) =
     io_bind (format_timestamp_field (m_timestamp msg)) (\<lambda>ts.
     io_bind (format_messages msgs) (\<lambda>rest.
     io_return (\<lparr>m_message_id = m_message_id msg, m_user_message = m_user_message msg,
                  m_ai_response = m_ai_response msg, m_timestamp = Inr ts,
                  m_metadata = Some (case m_metadata msg of None \<Rightarrow> [] | Some md \<Rightarrow> md)\<rparr>
                # rest)))"

definition get_chat_history :: "settings \<Rightarrow> string \<Rightarrow> string \<Rightarrow> int \<Rightarrow> chat_history io" where
  "get_chat_history cfg user_id interaction_id limit =
     io_try
       (io_bind (cache_get_interaction cfg interaction_id) (\<lambda>cached.
        case (case cached of Some c \<Rightarrow> if ci_user_id c = user_id then Some c else None
                           | None \<Rightarrow> None) of
          Some c \<Rightarrow>
            (let messages = slice_from (ci_messages c) (- limit) in
             io_bind get_current_timestamp (\<lambda>t.
             io_return \<lparr>ch_interaction_id = interaction_id, ch_session_id = ci_session_id c,
                        ch_messages = messages, ch_total_messages = length (ci_messages c),
                        ch_created_at = ci_created_at c,
                        ch_last_updated = format_timestamp t\<rparr>))
        | None \<Rightarrow>
            io_bind (interactions_find_one
                       (\<lambda>d. i_interaction_id d = interaction_id \<and> i_user_id d = user_id))
              (\<lambda>interaction.
               case interaction of
                 None \<Rightarrow> io_raise (ValueError ''Interaction not found'')
               | Some interaction \<Rightarrow>
                   (let messages = slice_from (i_messages interaction) (- limit) in
                    io_bind (format_messages messages) (\<lambda>formatted_messages.
                    io_return \<lparr>ch_interaction_id = interaction_id,
                               ch_session_id = i_session_id interaction,
                               ch_messages = formatted_messages,
                               ch_total_messages = length (i_messages interaction),
                               ch_created_at = format_timestamp (i_created_at interaction),
                               ch_last_updated = format_timestamp (i_updated_at interaction)\<rparr>)))))
       (\<lambda>e. io_raise e)"

definition delete_interaction :: "string \<Rightarrow> string \<Rightarrow> bool io" where
  "delete_interaction user_id interaction_id =
     io_try
       (io_bind (interactions_find_one
                   (\<lambda>d. i_interaction_id d = interaction_id \<and> i_user_id d = user_id))
          (\<lambda>interaction.
           case interaction of
             None \<Rightarrow> io_raise (ValueError ''Interaction not found'')
           | Some interaction \<Rightarrow>
               io_bind (interactions_delete_one (\<lambda>d. i_interaction_id d = interaction_id)) (\<lambda>_.
               io_bind (cache_delete_interaction interaction_id) (\<lambda>_.
               io_bind (sessions_update_one (\<lambda>d. s_session_id d = i_session_id interaction)
                          (\<lambda>d. d\<lparr>s_interaction_ids :=
                                    removeAll interaction_id (s_interaction_ids d)\<rparr>)) (\<lambda>_.
               io_return True)))))
       (\<lambda>e. io_raise e)"

section \<open>Routes (\<^verbatim>\<open>app/routes/chat.py\<close>)\<close>

text \<open>
  The history route caps the query parameter at 500 and maps a \<^verbatim>\<open>ValueError\<close> to status
  404 and any other exception to status 500.
\<close>

datatype 'a response = Success 'a string | HTTPException nat string

definition get_chat_history_route ::
    "settings \<Rightarrow> string \<Rightarrow> string \<Rightarrow> int \<Rightarrow> world \<Rightarrow> chat_history response \<times> world" where
  "get_chat_history_route cfg user_id interaction_id limit w =
     (case get_chat_history cfg user_id interaction_id (min limit 500) w of
        (Inr history, w') \<Rightarrow> (Success history ''Chat history retrieved successfully'', w')
      | (Inl (ValueError m), w') \<Rightarrow> (HTTPException 404 m, w')
      | (Inl e, w') \<Rightarrow> (HTTPException 500 ''Failed to retrieve chat history'', w'))"

section \<open>The environment between two requests\<close>

text \<open>Time passes; nothing else changes.\<close>

definition advance :: "int \<Rightarrow> world \<Rightarrow> world" where
  "advance d w = w\<lparr>now := now w + d\<rparr>"

section \<open>Worlds for concrete runs\<close>

text \<open>
  A world with nothing stored, every service answering, and a generator that answers
  with the conversation it was given, so that a response shows what the generator saw.
\<close>

definition empty_world :: world where
  "empty_world =
     \<lparr>now = 1000, uuid4 = (\<lambda>n. replicate (Suc n) (CHR ''a'')), uuid_count = 0,
      redis_up = True, redis_session = Map.empty, redis_interaction = Map.empty,
      redis_rate_limit = Map.empty, mongo_up = True, sessions_collection = [],
      interactions_collection = [],
      chat_completion = (\<lambda>msgs. Inr (concat (map (\<lambda>m. content m @ ''/'') msgs)))\<rparr>"

definition test_settings :: settings where
  "test_settings = default_settings ''secret''"

text \<open>
  Bob sends a first message with no identifiers, which creates \<^verbatim>\<open>session_a\<close> and
  \<^verbatim>\<open>interaction_aa\<close>, and a second message in that interaction.
\<close>

definition bob_world :: world where
  "bob_world =
     snd (send_message test_settings ''bob'' ''second'' (Some ''session_a'') (Some ''interaction_aa'')
       (snd (send_message test_settings ''bob'' ''first'' None None empty_world)))"

section \<open>Runs of the rate limiter\<close>



section \<open>The steps of \<^verbatim>\<open>send_message\<close>\<close>

text \<open>
  The blocks of \<^verbatim>\<open>send_message\<close>, under the comments that head them in the source, as
  operations of their own; \<open>send_message_steps\<close> below proves that \<^verbatim>\<open>send_message\<close> is their
  sequence. \<open>session_step\<close> is "Create session if not provided", \<open>expiry_step\<close> is "Check if
  interaction expired", \<open>interaction_step\<close> is "Create interaction if not provided",
  \<open>store_step\<close> is everything from "Create message pair" to the \<^verbatim>\<open>return\<close>, and
  \<open>send_message_handler\<close> is the two \<^verbatim>\<open>except\<close> clauses.
\<close>

definition session_step :: "settings \<Rightarrow> string \<Rightarrow> string option \<Rightarrow> string io" where
  "session_step cfg user_id session_id =
     (if \<not> truthy session_id
      then io_bind (create_session cfg user_id)
             (\<lambda>session. io_return (sc_session_id session))
      else io_bind (get_session cfg (str_of session_id) user_id)
             (\<lambda>session. case session of
                  None \<Rightarrow> io_raise (ValueError ''Invalid session_id'')
                | Some s \<Rightarrow> io_return (str_of session_id)))"

definition expiry_step :: "string option \<Rightarrow> unit io" where
  "expiry_step interaction_id =
     (if truthy interaction_id
      then io_bind (check_interaction_expired (str_of interaction_id))
             (\<lambda>is_expired.
                if is_expired
                then io_raise (ValueError
                       ''Interaction expired. Please create a new interaction.'')
                else io_return ())
      else io_return ())"

definition interaction_step :: "settings \<Rightarrow> string \<Rightarrow> string \<Rightarrow> string option \<Rightarrow> string io" where
  "interaction_step cfg session_id user_id interaction_id =
     (if \<not> truthy interaction_id
      then io_bind (create_interaction cfg session_id user_id)
             (\<lambda>interaction. io_return (ic_interaction_id interaction))
      else io_return (str_of interaction_id))"

definition store_step :: "settings \<Rightarrow> string \<Rightarrow> string \<Rightarrow> string \<Rightarrow> string \<Rightarrow> message_sent io" where
  "store_step cfg session_id interaction_id message ai_response =
     io_bind generate_message_id (\<lambda>message_id.
     io_bind (message_pair message_id message ai_response) (\<lambda>msg_pair.
     io_bind get_current_timestamp (\<lambda>t.
     io_bind get_current_timestamp (\<lambda>t'.
     io_bind (interactions_update_one (\<lambda>d. i_interaction_id d = interaction_id)
                (\<lambda>d. d\<lparr>i_messages := i_messages d @ [msg_pair],
                        i_updated_at := t, i_last_message_at := t'\<rparr>)) (\<lambda>_.
     io_bind (cache_get_interaction cfg interaction_id) (\<lambda>cached_interaction.
     io_bind (case cached_interaction of
                None \<Rightarrow> io_return ()
              | Some c \<Rightarrow>
                  io_bind (format_timestamp_field (m_timestamp msg_pair)) (\<lambda>ts.
                  io_bind (cache_interaction cfg interaction_id
                             (c\<lparr>ci_messages := ci_messages c @
                                  [\<lparr>m_message_id = message_id, m_user_message = message,
                                    m_ai_response = ai_response, m_timestamp = Inr ts,
                                    m_metadata = None\<rparr>]\<rparr>)) (\<lambda>_.
                  io_return ()))) (\<lambda>_.
     io_bind (format_timestamp_field (m_timestamp msg_pair)) (\<lambda>ts.
     io_return \<lparr>ms_session_id = session_id, ms_interaction_id = interaction_id,
                ms_message_id = message_id, ms_user_message = message,
                ms_ai_response = ai_response, ms_timestamp = ts\<rparr>))))))))"

definition send_message_handler :: "exn \<Rightarrow> message_sent io" where
  "send_message_handler e =
     (case e of
        ValueError m \<Rightarrow> io_raise (ValueError m)
      | _ \<Rightarrow> io_raise (Exception (''Failed to send message: '' @ str_exn e)))"

text \<open>
  The steps of \<^verbatim>\<open>send_message\<close> that come before the call of the generator, as one
  operation: it returns the session identifier, the interaction identifier and the
  history that the generator will be given (\<open>send_message_prologue_steps\<close> below).
\<close>

definition send_message_prologue ::
    "settings \<Rightarrow> string \<Rightarrow> string option \<Rightarrow> string option \<Rightarrow> (string \<times> string \<times> message list) io" where
  "send_message_prologue cfg user_id session_id interaction_id =
     io_bind (session_step cfg user_id session_id) (\<lambda>sid.
     io_bind (expiry_step interaction_id) (\<lambda>_.
     io_bind (interaction_step cfg sid user_id interaction_id) (\<lambda>iid.
     io_bind (get_interaction_messages cfg iid) (\<lambda>history.
     io_return (sid, iid, history)))))"

text \<open>A world whose generator refuses every request with status 503.\<close>

definition generator_down :: "world \<Rightarrow> world" where
  "generator_down w = w\<lparr>chat_completion := (\<lambda>msgs. Inl ''503 Service Unavailable'')\<rparr>"

text \<open>Bob deletes his interaction: the session's document loses the identifier.\<close>

definition stale_world :: world where
  "stale_world = snd (delete_interaction ''bob'' ''interaction_aa'' bob_world)"

text \<open>Bob creates an interaction in his session while Redis does not answer.\<close>

definition cache_outage_world :: world where
  "cache_outage_world =
     snd (create_interaction test_settings ''session_a'' ''bob'' (bob_world\<lparr>redis_up := False\<rparr>))"

section \<open>Routes (\<^verbatim>\<open>app/routes/session.py\<close>)\<close>

text \<open>
  The delete route loads the session for the user, deletes the interactions that the
  snapshot lists, logging the error of each that fails, deletes the session's document
  and then its cache entry. A request whose session is not found gets status 404, any
  other failure status 500.
\<close>

fun delete_interactions :: "string \<Rightarrow> string list \<Rightarrow> unit io" where
  "delete_interactions user_id [] = io_return ()"
| "delete_interactions user_id (interaction_id # interaction_ids) =
     io_bind (io_try (io_bind (delete_interaction user_id interaction_id) (\<lambda>_. io_return ()))
                     (\<lambda>e. io_return ()))
       (\<lambda>_. delete_interactions user_id interaction_ids)"

definition delete_session_route ::
    "settings \<Rightarrow> string \<Rightarrow> string \<Rightarrow> world \<Rightarrow> string response \<times> world" where
  "delete_session_route cfg user_id session_id w =
     (case get_session cfg session_id user_id w of
        (Inl e, w1) \<Rightarrow> (HTTPException 500 ''Failed to delete session'', w1)
      | (Inr None, w1) \<Rightarrow>
          (HTTPException 404 ''Session not found or does not belong to user'', w1)
      | (Inr (Some session), w1) \<Rightarrow>
          (case io_bind (delete_interactions user_id (cs_interaction_ids session)) (\<lambda>_.
                io_bind (sessions_delete_one (\<lambda>d. s_session_id d = session_id)) (\<lambda>_.
                cache_delete_session session_id)) w1 of
             (Inl e, w2) \<Rightarrow> (HTTPException 500 ''Failed to delete session'', w2)
           | (Inr ok, w2) \<Rightarrow> (Success session_id ''Session deleted successfully'', w2)))"

section \<open>Worlds that the service reaches\<close>

text \<open>
  The session in which a \<^verbatim>\<open>delete_interaction\<close> call deletes an interaction: the session of
  the interaction it finds for the user, when the call does not raise. The delete route
  makes one such call after the other.
\<close>

definition deleted_in :: "string \<Rightarrow> string \<Rightarrow> world \<Rightarrow> string set" where
  "deleted_in user_id interaction_id w =
     (if isl (fst (delete_interaction user_id interaction_id w)) then {}
      else i_session_id `
             set_option (find (\<lambda>d. i_interaction_id d = interaction_id \<and> i_user_id d = user_id)
                           (interactions_collection w)))"

fun deleted_in_all :: "string \<Rightarrow> string list \<Rightarrow> world \<Rightarrow> string set" where
  "deleted_in_all user_id [] w = {}"
| "deleted_in_all user_id (interaction_id # interaction_ids) w =
     deleted_in user_id interaction_id w
     \<union> deleted_in_all user_id interaction_ids (snd (delete_interaction user_id interaction_id w))"

text \<open>
  The worlds reached from an empty sessions collection and an empty session cache, with a
  source of identifiers that never repeats one, by the operations of the service one after
  the other, while between them time passes and Redis, MongoDB and the generator go down
  and come back. The set \<open>S\<close> collects the sessions in which an interaction has been deleted,
  or has been created while Redis did not answer: by a \<^verbatim>\<open>create_interaction\<close> that returned,
  or by a \<^verbatim>\<open>send_message\<close> that named no interaction and whose prologue passed.
\<close>

inductive reached :: "settings \<Rightarrow> string set \<Rightarrow> world \<Rightarrow> bool" for cfg :: settings where
  start: "inj (uuid4 w) \<Longrightarrow> sessions_collection w = [] \<Longrightarrow> redis_session w = Map.empty
          \<Longrightarrow> reached cfg {} w"
| environment: "reached cfg S w \<Longrightarrow> now w \<le> t \<Longrightarrow>
     reached cfg S (w\<lparr>now := t, redis_up := r, mongo_up := m, chat_completion := g\<rparr>)"
| create_session: "reached cfg S w \<Longrightarrow> reached cfg S (snd (create_session cfg user_id w))"
| get_session: "reached cfg S w \<Longrightarrow> reached cfg S (snd (get_session cfg session_id user_id w))"
| create_interaction: "reached cfg S w \<Longrightarrow>
     reached cfg (if redis_up w \<or> isl (fst (create_interaction cfg session_id user_id w)) then S
                  else insert session_id S)
       (snd (create_interaction cfg session_id user_id w))"
| send_message: "reached cfg S w \<Longrightarrow>
     reached cfg (case fst (send_message_prologue cfg user_id session_id interaction_id w) of
                    Inl e \<Rightarrow> S
                  | Inr (sid, iid, history) \<Rightarrow>
                      if redis_up w \<or> truthy interaction_id then S else insert sid S)
       (snd (send_message cfg user_id message session_id interaction_id w))"
| get_chat_history: "reached cfg S w \<Longrightarrow>
     reached cfg S (snd (get_chat_history cfg user_id interaction_id limit w))"
| delete_interaction: "reached cfg S w \<Longrightarrow>
     reached cfg (S \<union> deleted_in user_id interaction_id w)
       (snd (delete_interaction user_id interaction_id w))"
| delete_session: "reached cfg S w \<Longrightarrow>
     reached cfg (S \<union> (case get_session cfg session_id user_id w of
                          (Inr (Some session), w1) \<Rightarrow>
                            deleted_in_all user_id (cs_interaction_ids session) w1
                        | _ \<Rightarrow> {}))
       (snd (delete_session_route cfg user_id session_id w))"
| check_rate_limit: "reached cfg S w \<Longrightarrow> reached cfg S (snd (check_rate_limit cfg user_id w))"

section \<open>The session cache against the sessions collection\<close>





text \<open>
  An operation that leaves the sessions collection and the session cache as they are, and
  at most draws identifiers.
\<close>

definition same_sessions :: "world \<Rightarrow> world \<Rightarrow> bool" where
  "same_sessions w w' \<longleftrightarrow>
     uuid4 w' = uuid4 w \<and> uuid_count w \<le> uuid_count w'
   \<and> sessions_collection w' = sessions_collection w \<and> redis_session w' = redis_session w"

definition frames :: "'a io \<Rightarrow> bool" where
  "frames m \<longleftrightarrow> (\<forall>w. same_sessions w (snd (m w)))"

section \<open>Unfolding rules\<close>

lemmas io_defs = io_return_def io_raise_def io_bind_def io_try_def

lemmas ks_defs = ks_entry_def ks_get_def ks_exists_def ks_setex_def ks_delete_def ks_expire_def
  ks_incr_def ks_ttl_def

lemmas redis_defs = redis_cmd_def redis_setex_check_def session_get_def session_setex_def
  session_delete_def session_exists_def session_expire_def interaction_get_def
  interaction_setex_def interaction_delete_def interaction_exists_def interaction_expire_def
  rate_limit_get_def rate_limit_setex_def rate_limit_incr_def rate_limit_ttl_def

lemmas cache_defs = cache_session_def cache_get_session_def cache_delete_session_def
  update_session_activity_def cache_interaction_def cache_get_interaction_def
  cache_delete_interaction_def check_interaction_expired_def check_rate_limit_def

lemmas mongo_defs = mongo_cmd_def sessions_insert_one_def sessions_find_one_def
  sessions_update_one_def sessions_delete_one_def interactions_insert_one_def
  interactions_find_one_def interactions_update_one_def interactions_delete_one_def

lemmas util_defs = get_current_timestamp_def generate_uuid_def generate_session_id_def
  generate_interaction_id_def generate_message_id_def session_document_def
  interaction_document_def message_pair_def format_timestamp_def format_timestamp_field_def
  generate_response_def sanitize_message_def strip_def isspace_def slice_from_def

lemmas chat_defs = send_message_def create_session_def create_interaction_def get_session_def
  get_interaction_messages_def get_chat_history_def delete_interaction_def

lemmas token_defs = verify_access_token_def verify_refresh_token_def decode_token_def
  create_access_token_def create_refresh_token_def jwt_encode_def fromtimestamp_def
  timedelta_minutes_def timedelta_days_def

lemmas run_defs = chat_defs io_defs redis_defs ks_defs cache_defs mongo_defs util_defs
  empty_world_def bob_world_def test_settings_def default_settings_def advance_def Let_def

section \<open>Token service\<close>

text \<open>
  Where the host's local time is not behind UTC by more than the token's lifetime, a
  token verified at the instant it was issued gives back the user and the email.
\<close>

lemma verify_fresh_access_token:
  assumes "0 \<le> JWT_ACCESS_TOKEN_EXPIRE_MINUTES cfg"
    and "0 \<le> utc_offset + timedelta_minutes (JWT_ACCESS_TOKEN_EXPIRE_MINUTES cfg)"
  shows "verify_access_token cfg utc_offset t (create_access_token cfg t u e) =
           Some \<lparr>p_user_id = u, p_email = e,
                 p_exp = t + timedelta_minutes (JWT_ACCESS_TOKEN_EXPIRE_MINUTES cfg),
                 p_type = ''access''\<rparr>"
  using assms by (simp add: token_defs)

text \<open>A refresh token is never accepted as an access token.\<close>

lemma verify_access_rejects_refresh:
  "verify_access_token cfg utc_offset t (create_refresh_token cfg t0 u e) = None"
  by (simp add: token_defs)

text \<open>No token whose expiry is before the current time is accepted, and no other string is.\<close>

lemma verify_access_rejects_expired:
  "p_exp claims < t \<Longrightarrow> verify_access_token cfg utc_offset t (Signed claims k a) = None"
  by (simp add: token_defs)

lemma verify_access_rejects_malformed:
  "verify_access_token cfg utc_offset t (Malformed s) = None"
  by (simp add: token_defs)

text \<open>
  Claim C6: for every user and email, verifying a freshly issued access token as an access
  token succeeds with that user and email; a refresh token fails; an expired token fails;
  each failure is \<^verbatim>\<open>None\<close>. The failures are as claimed (the three lemmas above). The
  success is not: \<^verbatim>\<open>verify_access_token\<close> compares \<^verbatim>\<open>datetime.utcnow()\<close> with
  \<^verbatim>\<open>datetime.fromtimestamp(exp)\<close>, which is local time. On a host five hours west of
  Greenwich, with the settings' defaults, the token issued at an instant is rejected at
  that same instant.
\<close>

theorem fresh_access_token_rejected_west_of_utc:
  "verify_access_token test_settings (- 18000) 1700000000
     (create_access_token test_settings 1700000000 ''user_1'' ''a@b.c'') = None"
  by (simp add: token_defs test_settings_def default_settings_def)

section \<open>Chat history\<close>

text \<open>
  For a positive limit the slice \<^verbatim>\<open>messages[-limit:]\<close> is the last \<open>limit\<close> elements in
  their order, \<open>min limit (length messages)\<close> of them.
\<close>

lemma slice_from_positive_limit:
  "0 < limit \<Longrightarrow> slice_from xs (- limit) = drop (length xs - nat limit) xs"
  by (simp add: slice_from_def Let_def max_def nat_diff_distrib')

lemma length_slice_from_positive_limit:
  "0 < limit \<Longrightarrow> length (slice_from xs (- limit)) = min (nat limit) (length xs)"
  by (simp add: slice_from_positive_limit)

text \<open>At limit 0 the slice is \<^verbatim>\<open>messages[0:]\<close>, the whole list.\<close>

lemma slice_from_zero_limit: "slice_from xs (- 0) = xs"
  by (simp add: slice_from_def)

text \<open>
  Claim C4: \<^verbatim>\<open>get_chat_history\<close> with limit \<open>N\<close> returns exactly \<open>min N T\<close> pairs, the most
  recent ones in order, and the total \<open>T\<close>, for every \<open>N\<close>, \<open>N = 0\<close> included. The code
  does so for \<open>N > 0\<close> only. Bob's interaction holds two pairs; with limit 0 the route
  answers with both of them, from the cache, and so does the manager from the Durable
  Store once the cache entry has expired, where the claim says none.
\<close>

theorem history_limit_zero_returns_all_pairs:
  "(\<exists>h m w'. get_chat_history_route test_settings ''bob'' ''interaction_aa'' 0 bob_world
               = (Success h m, w')
            \<and> map m_user_message (ch_messages h) = [''first'', ''second'']
            \<and> ch_total_messages h = 2)
   \<and> (\<exists>h w'. get_chat_history test_settings ''bob'' ''interaction_aa'' 0 (advance 5000 bob_world)
               = (Inr h, w')
            \<and> map m_user_message (ch_messages h) = [''first'', ''second'']
            \<and> ch_total_messages h = 2)"
  by (simp add: get_chat_history_route_def run_defs)

section \<open>Ownership\<close>

text \<open>
  Claim C2: a request by user A that names an entity of user B has the outcome of a request
  that names no entity at all, and neither returns nor changes B's data. \<^verbatim>\<open>get_session\<close>,
  \<^verbatim>\<open>get_chat_history\<close> and \<^verbatim>\<open>delete_interaction\<close> compare the owner; \<^verbatim>\<open>send_message\<close>
  compares the owner of the session only. Alice, with no session of her own, names Bob's
  cached interaction: the call succeeds, the generator is given Bob's conversation (its
  answer shows it), and Alice's message is appended to Bob's stored interaction. With an
  identifier that names nothing the same call is refused as expired.
\<close>

theorem send_message_into_foreign_interaction:
  "(\<exists>r w'. send_message test_settings ''alice'' ''hello'' None (Some ''interaction_aa'') bob_world
             = (Inr r, w')
          \<and> ms_interaction_id r = ''interaction_aa''
          \<and> ms_ai_response r = ''first/first//second/first/first//second//hello/''
          \<and> map (\<lambda>d. (i_user_id d, map m_user_message (i_messages d))) (interactions_collection w')
             = [(''bob'', [''first'', ''second'', ''hello''])])
   \<and> fst (send_message test_settings ''alice'' ''hello'' None (Some ''interaction_zz'') bob_world)
       = Inl (ValueError ''Interaction expired. Please create a new interaction.'')"
  by (simp add: run_defs)

section \<open>Durable Store failures\<close>

text \<open>
  Claim C3: a failure of the Durable Store reaches the caller of every manager operation
  as a failure, and \<^verbatim>\<open>get_session\<close> does not report the session as absent.
  The handlers of \<^verbatim>\<open>get_session\<close> and \<^verbatim>\<open>_get_interaction_messages\<close> return \<^verbatim>\<open>None\<close> and
  \<^verbatim>\<open>[]\<close>, where the handlers of the other operations re-raise. A day after Bob's
  messages the cache has forgotten his session and interaction; with MongoDB not
  answering, \<^verbatim>\<open>get_session\<close> returns \<^verbatim>\<open>None\<close> for Bob's session, as it does for a
  session that never existed, \<^verbatim>\<open>_get_interaction_messages\<close> returns no messages, and
  \<^verbatim>\<open>send_message\<close> tells Bob that his session identifier is invalid.
\<close>

theorem store_failure_reported_as_absent:
  "fst (get_session test_settings ''session_a'' ''bob'' ((advance 90000 bob_world)\<lparr>mongo_up := False\<rparr>))
     = Inr None
   \<and> fst (get_session test_settings ''session_zz'' ''bob'' (advance 90000 bob_world)) = Inr None
   \<and> fst (get_interaction_messages test_settings ''interaction_aa''
            ((advance 90000 bob_world)\<lparr>mongo_up := False\<rparr>)) = Inr []
   \<and> fst (send_message test_settings ''bob'' ''third'' (Some ''session_a'') None
            ((advance 90000 bob_world)\<lparr>mongo_up := False\<rparr>)) = Inl (ValueError ''Invalid session_id'')"
  by (simp add: run_defs)

section \<open>Rate limiter\<close>






section \<open>Sending a message: the steps and what they touch\<close>

text \<open>\<^verbatim>\<open>send_message\<close> is the sequence of its steps inside its handler.\<close>

lemma send_message_steps:
  "send_message cfg user_id message session_id interaction_id =
     io_try
       (io_bind (session_step cfg user_id session_id) (\<lambda>sid.
        io_bind (expiry_step interaction_id) (\<lambda>_.
        io_bind (interaction_step cfg sid user_id interaction_id) (\<lambda>iid.
        io_bind (get_interaction_messages cfg iid) (\<lambda>history.
        io_bind (generate_response
                   (format_conversation_history history (sanitize_message message 10000)))
          (\<lambda>ai_response.
        store_step cfg sid iid (sanitize_message message 10000) ai_response))))))
       send_message_handler"
  unfolding send_message_def session_step_def expiry_step_def interaction_step_def
    store_step_def send_message_handler_def Let_def
  by (rule arg_cong2 [where f = io_try]) (rule refl ext)+

text \<open>
  Creating or loading a session leaves the clock, the reachability of both stores, the
  interaction cache, the rate counters, the interactions collection and the generator as
  they were.
\<close>

lemma create_session_frame:
  "now (snd (create_session cfg uid w)) = now w
   \<and> redis_up (snd (create_session cfg uid w)) = redis_up w
   \<and> mongo_up (snd (create_session cfg uid w)) = mongo_up w
   \<and> redis_interaction (snd (create_session cfg uid w)) = redis_interaction w
   \<and> redis_rate_limit (snd (create_session cfg uid w)) = redis_rate_limit w
   \<and> interactions_collection (snd (create_session cfg uid w)) = interactions_collection w
   \<and> chat_completion (snd (create_session cfg uid w)) = chat_completion w
   \<and> uuid4 (snd (create_session cfg uid w)) = uuid4 w"
  by (simp add: create_session_def io_defs redis_defs cache_defs mongo_defs util_defs
      split: option.split)

lemma get_session_frame:
  "now (snd (get_session cfg sid uid w)) = now w
   \<and> redis_up (snd (get_session cfg sid uid w)) = redis_up w
   \<and> mongo_up (snd (get_session cfg sid uid w)) = mongo_up w
   \<and> redis_interaction (snd (get_session cfg sid uid w)) = redis_interaction w
   \<and> redis_rate_limit (snd (get_session cfg sid uid w)) = redis_rate_limit w
   \<and> interactions_collection (snd (get_session cfg sid uid w)) = interactions_collection w
   \<and> chat_completion (snd (get_session cfg sid uid w)) = chat_completion w
   \<and> uuid4 (snd (get_session cfg sid uid w)) = uuid4 w
   \<and> uuid_count (snd (get_session cfg sid uid w)) = uuid_count w"
  by (simp add: get_session_def io_defs redis_defs cache_defs mongo_defs util_defs Let_def
      split: option.split)

text \<open>\<^verbatim>\<open>get_session\<close> returns in every world: its handler returns \<^verbatim>\<open>None\<close>.\<close>

lemma get_session_never_raises: "\<not> isl (fst (get_session cfg sid uid w))"
  by (simp add: get_session_def io_defs redis_defs cache_defs mongo_defs util_defs Let_def
      split: option.split)

text \<open>
  The expiry check reads the clock and the interaction cache, nothing else, and changes
  nothing: the interaction counts as expired when Redis does not answer or holds no live
  entry for it.
\<close>

lemma check_interaction_expired_eq:
  "check_interaction_expired iid w =
     (Inr (\<not> redis_up w \<or> ks_get (now w) (redis_interaction w) iid = None), w)"
  by (cases "ks_entry (now w) (redis_interaction w) iid")
     (simp_all add: check_interaction_expired_def interaction_exists_def redis_cmd_def io_defs
        ks_exists_def ks_get_def)

lemma session_step_frame:
  "now (snd (session_step cfg uid sid w)) = now w
   \<and> redis_up (snd (session_step cfg uid sid w)) = redis_up w
   \<and> mongo_up (snd (session_step cfg uid sid w)) = mongo_up w
   \<and> redis_interaction (snd (session_step cfg uid sid w)) = redis_interaction w
   \<and> redis_rate_limit (snd (session_step cfg uid sid w)) = redis_rate_limit w
   \<and> interactions_collection (snd (session_step cfg uid sid w)) = interactions_collection w
   \<and> chat_completion (snd (session_step cfg uid sid w)) = chat_completion w
   \<and> uuid4 (snd (session_step cfg uid sid w)) = uuid4 w"
proof (cases "truthy sid")
  case True
  obtain r w' where g: "get_session cfg (str_of sid) uid w = (r, w')"
    by (cases "get_session cfg (str_of sid) uid w")
  from get_session_frame [of cfg "str_of sid" uid w] g True show ?thesis
    by (simp add: session_step_def io_defs split: sum.split option.split)
next
  case False
  obtain r w' where g: "create_session cfg uid w = (r, w')"
    by (cases "create_session cfg uid w")
  from create_session_frame [of cfg uid w] g False show ?thesis
    by (simp add: session_step_def io_defs split: sum.split)
qed

text \<open>The session step succeeds exactly when the session was found, or was created.\<close>

lemma session_step_ok:
  "\<not> isl (fst (session_step cfg uid sid w)) \<longleftrightarrow>
     (if truthy sid then fst (get_session cfg (str_of sid) uid w) \<noteq> Inr None
      else \<not> isl (fst (create_session cfg uid w)))"
proof (cases "truthy sid")
  case True
  obtain r w' where g: "get_session cfg (str_of sid) uid w = (r, w')"
    by (cases "get_session cfg (str_of sid) uid w")
  from get_session_never_raises [of cfg "str_of sid" uid w] g True show ?thesis
    by (auto simp: session_step_def io_defs split: sum.split option.split)
next
  case False
  obtain r w' where g: "create_session cfg uid w = (r, w')"
    by (cases "create_session cfg uid w")
  from g False show ?thesis
    by (auto simp: session_step_def io_defs split: sum.split)
qed

text \<open>
  Every call that names an interaction which the expiry check reports expired fails, and
  leaves the interactions collection and the interaction cache as they were. When the
  session step passed, the failure is the expiry error.
\<close>

lemma send_message_expired:
  assumes "truthy iid" and "fst (check_interaction_expired (str_of iid) w) = Inr True"
  shows "\<exists>e w'. send_message cfg uid msg sid iid w = (Inl e, w')
            \<and> interactions_collection w' = interactions_collection w
            \<and> redis_interaction w' = redis_interaction w
            \<and> (\<not> isl (fst (session_step cfg uid sid w)) \<longrightarrow>
                 e = ValueError ''Interaction expired. Please create a new interaction.'')"
proof -
  obtain r w1 where s: "session_step cfg uid sid w = (r, w1)"
    by (cases "session_step cfg uid sid w")
  have frame: "now w1 = now w" "redis_up w1 = redis_up w"
      "redis_interaction w1 = redis_interaction w"
      "interactions_collection w1 = interactions_collection w"
    using session_step_frame [of cfg uid sid w] s by simp_all
  have expired: "check_interaction_expired (str_of iid) w1 = (Inr True, w1)"
    using assms(2) frame by (simp add: check_interaction_expired_eq)
  show ?thesis
  proof (cases r)
    case (Inl e)
    then show ?thesis using s frame
      by (cases e) (simp_all add: send_message_steps io_defs send_message_handler_def)
  next
    case (Inr s')
    then show ?thesis using s frame expired assms(1)
      by (simp add: send_message_steps io_defs send_message_handler_def expiry_step_def)
  qed
qed

section \<open>Expired interactions\<close>

text \<open>
  Claim C1: a \<^verbatim>\<open>send_message\<close> call that supplies an \<^verbatim>\<open>interaction_id\<close> whose cache entry is
  absent (lapsed or deleted) fails with the "interaction expired" error, does not consult
  the Durable Store for the expiry check, and creates or resurrects no interaction under
  that identifier. The session is resolved before the expiry check, so the call is one
  whose session step passes: the named session is found for the user, or no session is
  named and one is created. The interactions collection and the whole interaction cache
  are as before the call, and the check gives the same answer whatever the Durable Store
  holds and whether or not it answers. (By \<open>send_message_expired\<close> the call fails and
  writes no interaction also when the session step does not pass.)
\<close>

theorem expired_interaction_is_rejected:
  assumes "truthy interaction_id"
    and "ks_get (now w) (redis_interaction w) (str_of interaction_id) = None"
    and "if truthy session_id
         then fst (get_session cfg (str_of session_id) user_id w) \<noteq> Inr None
         else \<not> isl (fst (create_session cfg user_id w))"
  shows "fst (send_message cfg user_id message session_id interaction_id w)
           = Inl (ValueError ''Interaction expired. Please create a new interaction.'')
       \<and> interactions_collection (snd (send_message cfg user_id message session_id interaction_id w))
           = interactions_collection w
       \<and> redis_interaction (snd (send_message cfg user_id message session_id interaction_id w))
           = redis_interaction w
       \<and> (\<forall>up ss ds.
             check_interaction_expired (str_of interaction_id)
               (w\<lparr>mongo_up := up, sessions_collection := ss, interactions_collection := ds\<rparr>)
             = (Inr True, w\<lparr>mongo_up := up, sessions_collection := ss, interactions_collection := ds\<rparr>))"
proof -
  have expired: "fst (check_interaction_expired (str_of interaction_id) w) = Inr True"
    using assms(2) by (simp add: check_interaction_expired_eq)
  have ok: "\<not> isl (fst (session_step cfg user_id session_id w))"
    using assms(3) by (simp only: session_step_ok)
  from send_message_expired [OF assms(1) expired, of cfg user_id message session_id] ok
  have "fst (send_message cfg user_id message session_id interaction_id w)
           = Inl (ValueError ''Interaction expired. Please create a new interaction.'')
       \<and> interactions_collection (snd (send_message cfg user_id message session_id interaction_id w))
           = interactions_collection w
       \<and> redis_interaction (snd (send_message cfg user_id message session_id interaction_id w))
           = redis_interaction w"
    by auto
  moreover have "check_interaction_expired (str_of interaction_id)
               (w\<lparr>mongo_up := up, sessions_collection := ss, interactions_collection := ds\<rparr>)
             = (Inr True, w\<lparr>mongo_up := up, sessions_collection := ss, interactions_collection := ds\<rparr>)"
    for up ss ds
    using assms(2) by (simp add: check_interaction_expired_eq)
  ultimately show ?thesis by blast
qed

theorem expired_interaction_is_rejected_witness:
  "fst (send_message test_settings ''bob'' ''third'' (Some ''session_a'') (Some ''interaction_aa'')
          (advance 5000 bob_world))
     = Inl (ValueError ''Interaction expired. Please create a new interaction.'')
   \<and> interactions_collection
        (snd (send_message test_settings ''bob'' ''third'' (Some ''session_a'') (Some ''interaction_aa'')
               (advance 5000 bob_world)))
     = interactions_collection (advance 5000 bob_world)
   \<and> redis_interaction
        (snd (send_message test_settings ''bob'' ''third'' (Some ''session_a'') (Some ''interaction_aa'')
               (advance 5000 bob_world)))
     = redis_interaction (advance 5000 bob_world)"
proof -
  have h1: "truthy (Some ''interaction_aa'')" by simp
  have h2: "ks_get (now (advance 5000 bob_world)) (redis_interaction (advance 5000 bob_world))
              (str_of (Some ''interaction_aa'')) = None"
    by (simp add: run_defs)
  have h3: "if truthy (Some ''session_a'')
            then fst (get_session test_settings (str_of (Some ''session_a'')) ''bob''
                       (advance 5000 bob_world)) \<noteq> Inr None
            else \<not> isl (fst (create_session test_settings ''bob'' (advance 5000 bob_world)))"
    by (simp add: run_defs)
  from expired_interaction_is_rejected [OF h1 h2 h3, of "''third''"] show ?thesis by blast
qed

text \<open>
  Claim C10: the expiry check fails closed. When Redis does not answer,
  \<^verbatim>\<open>check_interaction_expired\<close> reports the interaction expired, so a \<^verbatim>\<open>send_message\<close> call that
  supplies an \<^verbatim>\<open>interaction_id\<close> is rejected with the "interaction expired" error (its session
  step passing, as in C1), while \<^verbatim>\<open>check_rate_limit\<close> lets the request through.
\<close>

theorem expiry_check_fails_closed:
  assumes "\<not> redis_up w"
    and "truthy interaction_id"
    and "if truthy session_id
         then fst (get_session cfg (str_of session_id) user_id w) \<noteq> Inr None
         else \<not> isl (fst (create_session cfg user_id w))"
  shows "check_interaction_expired (str_of interaction_id) w = (Inr True, w)
       \<and> fst (send_message cfg user_id message session_id interaction_id w)
           = Inl (ValueError ''Interaction expired. Please create a new interaction.'')
       \<and> check_rate_limit cfg user_id w = (Inr True, w)"
proof -
  have expired: "check_interaction_expired (str_of interaction_id) w = (Inr True, w)"
    using assms(1) by (simp add: check_interaction_expired_eq)
  have ok: "\<not> isl (fst (session_step cfg user_id session_id w))"
    using assms(3) by (simp only: session_step_ok)
  from send_message_expired [OF assms(2), of w cfg user_id message session_id] expired ok
  have "fst (send_message cfg user_id message session_id interaction_id w)
          = Inl (ValueError ''Interaction expired. Please create a new interaction.'')"
    by auto
  moreover have "check_rate_limit cfg user_id w = (Inr True, w)"
    using assms(1) by (simp add: check_rate_limit_def rate_limit_get_def redis_cmd_def io_defs)
  ultimately show ?thesis using expired by simp
qed

theorem expiry_check_fails_closed_witness:
  "check_interaction_expired (str_of (Some ''interaction_aa'')) (bob_world\<lparr>redis_up := False\<rparr>)
     = (Inr True, bob_world\<lparr>redis_up := False\<rparr>)
   \<and> fst (send_message test_settings ''bob'' ''third'' (Some ''session_a'') (Some ''interaction_aa'')
            (bob_world\<lparr>redis_up := False\<rparr>))
     = Inl (ValueError ''Interaction expired. Please create a new interaction.'')
   \<and> check_rate_limit test_settings ''bob'' (bob_world\<lparr>redis_up := False\<rparr>)
     = (Inr True, bob_world\<lparr>redis_up := False\<rparr>)"
proof -
  have h1: "\<not> redis_up (bob_world\<lparr>redis_up := False\<rparr>)" by simp
  have h2: "truthy (Some ''interaction_aa'')" by simp
  have h3: "if truthy (Some ''session_a'')
            then fst (get_session test_settings (str_of (Some ''session_a'')) ''bob''
                       (bob_world\<lparr>redis_up := False\<rparr>)) \<noteq> Inr None
            else \<not> isl (fst (create_session test_settings ''bob'' (bob_world\<lparr>redis_up := False\<rparr>)))"
    by (simp add: run_defs)
  from expiry_check_fails_closed [OF h1 h2 h3, of "''third''"] show ?thesis .
qed

section \<open>Generator failures\<close>

text \<open>
  \<^verbatim>\<open>send_message\<close> is its prologue, then the generator call and the store step, inside
  its handler.
\<close>

lemma send_message_prologue_steps:
  "send_message cfg user_id message session_id interaction_id =
     io_try
       (io_bind (send_message_prologue cfg user_id session_id interaction_id)
          (\<lambda>(sid, iid, history).
             io_bind (generate_response
                        (format_conversation_history history (sanitize_message message 10000)))
               (\<lambda>ai_response.
                  store_step cfg sid iid (sanitize_message message 10000) ai_response)))
       send_message_handler"
  by (rule ext)
     (simp add: send_message_steps send_message_prologue_def io_defs split: prod.split sum.split)

text \<open>A refusal of the endpoint is re-raised with the prefix of \<^verbatim>\<open>generate_response\<close>.\<close>

lemma generate_response_eq:
  "generate_response msgs w =
     (case chat_completion w msgs of
        Inl err \<Rightarrow> (Inl (Exception (''Failed to generate AI response: '' @ err)), w)
      | Inr r \<Rightarrow> (Inr r, w))"
  by (simp add: generate_response_def io_defs split: sum.split)

lemma expiry_step_frame: "snd (expiry_step iid w) = w"
  by (simp add: expiry_step_def check_interaction_expired_eq io_defs)

lemma ks_entry_SomeD: "ks_entry t ks key = Some (v, e) \<Longrightarrow> ks key = Some (v, e)"
  by (auto simp: ks_entry_def split: option.splits if_splits)

text \<open>
  Creating an interaction adds at most one document, with no messages, and at most one
  snapshot, with no messages. Loading the messages of an interaction changes no document
  and no snapshot (reading a snapshot refreshes its time to live).
\<close>

lemma create_interaction_frame:
  "chat_completion (snd (create_interaction cfg sid uid w)) = chat_completion w
   \<and> (interactions_collection (snd (create_interaction cfg sid uid w)) = interactions_collection w
      \<or> (\<exists>d. interactions_collection (snd (create_interaction cfg sid uid w))
                = interactions_collection w @ [d] \<and> i_messages d = []))
   \<and> (\<forall>k c e. redis_interaction (snd (create_interaction cfg sid uid w)) k = Some (c, e) \<longrightarrow>
         redis_interaction w k = Some (c, e) \<or> ci_messages c = [])"
  by (simp add: create_interaction_def io_defs redis_defs cache_defs mongo_defs util_defs ks_defs
      split: option.split)

lemma interaction_step_frame:
  "chat_completion (snd (interaction_step cfg sid uid iid w)) = chat_completion w
   \<and> (interactions_collection (snd (interaction_step cfg sid uid iid w)) = interactions_collection w
      \<or> (\<exists>d. interactions_collection (snd (interaction_step cfg sid uid iid w))
                = interactions_collection w @ [d] \<and> i_messages d = []))
   \<and> (\<forall>k c e. redis_interaction (snd (interaction_step cfg sid uid iid w)) k = Some (c, e) \<longrightarrow>
         redis_interaction w k = Some (c, e) \<or> ci_messages c = [])"
proof (cases "truthy iid")
  case True
  then show ?thesis by (simp add: interaction_step_def io_defs)
next
  case False
  obtain r w' where g: "create_interaction cfg sid uid w = (r, w')"
    by (cases "create_interaction cfg sid uid w")
  from create_interaction_frame [of cfg sid uid w] g False show ?thesis
    by (simp add: interaction_step_def io_defs split: sum.split)
qed

lemma get_interaction_messages_frame:
  "chat_completion (snd (get_interaction_messages cfg iid w)) = chat_completion w
   \<and> interactions_collection (snd (get_interaction_messages cfg iid w)) = interactions_collection w
   \<and> (\<forall>k c e. redis_interaction (snd (get_interaction_messages cfg iid w)) k = Some (c, e) \<longrightarrow>
         (\<exists>e'. redis_interaction w k = Some (c, e')))"
  by (auto simp: get_interaction_messages_def io_defs redis_defs cache_defs mongo_defs
      ks_get_def ks_expire_def dest: ks_entry_SomeD split: option.splits if_splits)

text \<open>
  So after the prologue, whether it passed or not, the stored interactions are those from
  before, with at most one new empty one, and every cached snapshot is one from before or
  an empty one.
\<close>

lemma send_message_prologue_frame:
  "chat_completion (snd (send_message_prologue cfg uid sid iid w)) = chat_completion w
   \<and> (interactions_collection (snd (send_message_prologue cfg uid sid iid w)) = interactions_collection w
      \<or> (\<exists>d. interactions_collection (snd (send_message_prologue cfg uid sid iid w))
                = interactions_collection w @ [d] \<and> i_messages d = []))
   \<and> (\<forall>k c e. redis_interaction (snd (send_message_prologue cfg uid sid iid w)) k = Some (c, e) \<longrightarrow>
         (\<exists>e'. redis_interaction w k = Some (c, e')) \<or> ci_messages c = [])"
proof -
  obtain r1 w1 where s1: "session_step cfg uid sid w = (r1, w1)"
    by (cases "session_step cfg uid sid w")
  have f1: "chat_completion w1 = chat_completion w"
      "interactions_collection w1 = interactions_collection w"
      "redis_interaction w1 = redis_interaction w"
    using session_step_frame [of cfg uid sid w] s1 by simp_all
  show ?thesis
  proof (cases r1)
    case (Inl e)
    then show ?thesis using s1 f1 by (simp add: send_message_prologue_def io_defs)
  next
    case (Inr s)
    obtain r2 where s2: "expiry_step iid w1 = (r2, w1)"
      using expiry_step_frame [of iid w1] by (cases "expiry_step iid w1") simp
    show ?thesis
    proof (cases r2)
      case (Inl e)
      then show ?thesis using s1 s2 f1 Inr by (simp add: send_message_prologue_def io_defs)
    next
      case u: (Inr u)
      obtain r3 w2 where s3: "interaction_step cfg s uid iid w1 = (r3, w2)"
        by (cases "interaction_step cfg s uid iid w1")
      have f3: "chat_completion w2 = chat_completion w"
          "interactions_collection w2 = interactions_collection w
           \<or> (\<exists>d. interactions_collection w2 = interactions_collection w @ [d] \<and> i_messages d = [])"
          "\<forall>k c e. redis_interaction w2 k = Some (c, e) \<longrightarrow>
             redis_interaction w k = Some (c, e) \<or> ci_messages c = []"
        using interaction_step_frame [of cfg s uid iid w1] s3 f1 by simp_all
      show ?thesis
      proof (cases r3)
        case (Inl e)
        then show ?thesis using s1 s2 s3 f3 Inr u
          by (auto simp: send_message_prologue_def io_defs)
      next
        case i: (Inr i)
        obtain r4 w3 where s4: "get_interaction_messages cfg i w2 = (r4, w3)"
          by (cases "get_interaction_messages cfg i w2")
        have f4: "chat_completion w3 = chat_completion w2"
            "interactions_collection w3 = interactions_collection w2"
            "\<forall>k c e. redis_interaction w3 k = Some (c, e) \<longrightarrow> (\<exists>e'. redis_interaction w2 k = Some (c, e'))"
          using get_interaction_messages_frame [of cfg i w2] s4 by simp_all
        have w3: "snd (send_message_prologue cfg uid sid iid w) = w3"
          using s1 s2 s3 s4 Inr u i
          by (cases r4) (simp_all add: send_message_prologue_def io_defs)
        have cached: "(\<exists>e'. redis_interaction w k = Some (c, e')) \<or> ci_messages c = []"
          if "redis_interaction w3 k = Some (c, e)" for k c e
        proof -
          from that f4(3) obtain e' where "redis_interaction w2 k = Some (c, e')" by blast
          with f3(3) show ?thesis by blast
        qed
        show ?thesis
          unfolding w3 using f3(1,2) f4(1,2) cached by auto
      qed
    qed
  qed
qed

text \<open>
  With a generator that refuses every request, every call fails and leaves the world that
  its prologue left.
\<close>

lemma send_message_generator_down:
  assumes "\<forall>msgs. isl (chat_completion w msgs)"
  shows "isl (fst (send_message cfg user_id message session_id interaction_id w))
       \<and> snd (send_message cfg user_id message session_id interaction_id w)
           = snd (send_message_prologue cfg user_id session_id interaction_id w)"
proof -
  obtain r w' where p: "send_message_prologue cfg user_id session_id interaction_id w = (r, w')"
    by (cases "send_message_prologue cfg user_id session_id interaction_id w")
  have c: "chat_completion w' = chat_completion w"
    using send_message_prologue_frame [of cfg user_id session_id interaction_id w] p by simp
  show ?thesis
  proof (cases r)
    case (Inl e)
    then show ?thesis using p
      by (cases e) (simp_all add: send_message_prologue_steps io_defs send_message_handler_def)
  next
    case (Inr x)
    obtain sid iid history where x: "x = (sid, iid, history)" by (cases x)
    obtain err where "chat_completion w'
        (format_conversation_history history (sanitize_message message 10000)) = Inl err"
      using assms c by (metis isl_def)
    then show ?thesis using p Inr x
      by (simp add: send_message_prologue_steps io_defs generate_response_eq send_message_handler_def)
  qed
qed

text \<open>
  Loading the messages of an interaction whose snapshot Redis serves returns the messages
  of the snapshot and refreshes its time to live, the snapshot itself staying as it is;
  when Redis does not answer, loading changes nothing.
\<close>

lemma get_interaction_messages_hit:
  assumes "redis_up w" and "ks_get (now w) (redis_interaction w) iid = Some c"
    and "0 < REDIS_TTL_INTERACTION cfg"
  shows "get_interaction_messages cfg iid w
           = (Inr (ci_messages c),
              w\<lparr>redis_interaction :=
                  (redis_interaction w)(iid \<mapsto> (c, Some (now w + REDIS_TTL_INTERACTION cfg)))\<rparr>)"
proof -
  obtain e where "ks_entry (now w) (redis_interaction w) iid = Some (c, e)"
    using assms(2) by (auto simp: ks_get_def)
  then show ?thesis using assms
    by (simp add: get_interaction_messages_def cache_get_interaction_def interaction_get_def
        interaction_expire_def redis_cmd_def io_defs ks_get_def ks_expire_def)
qed

lemma get_interaction_messages_down:
  "\<not> redis_up w \<Longrightarrow> snd (get_interaction_messages cfg iid w) = w"
  by (simp add: get_interaction_messages_def cache_get_interaction_def interaction_get_def
      interactions_find_one_def mongo_cmd_def redis_cmd_def io_defs split: option.split)

text \<open>
  A \<^verbatim>\<open>create_interaction\<close> that returns has appended one document without messages and, when
  Redis answers, has cached one snapshot without messages under the new identifier.
\<close>

lemma create_interaction_returns:
  assumes "fst (create_interaction cfg sid uid w) = Inr r"
  shows "ic_interaction_id r = ''interaction_'' @ uuid4 w (uuid_count w)
       \<and> now (snd (create_interaction cfg sid uid w)) = now w
       \<and> redis_up (snd (create_interaction cfg sid uid w)) = redis_up w
       \<and> interactions_collection (snd (create_interaction cfg sid uid w))
           = interactions_collection w @
               [\<lparr>i_interaction_id = ic_interaction_id r, i_session_id = sid, i_user_id = uid,
                 i_messages = [], i_created_at = now w, i_updated_at = now w,
                 i_last_message_at = now w, i_is_active = True\<rparr>]
       \<and> redis_interaction (snd (create_interaction cfg sid uid w))
           = (if redis_up w \<and> 0 < REDIS_TTL_INTERACTION cfg
              then (redis_interaction w)(ic_interaction_id r \<mapsto>
                     (\<lparr>ci_interaction_id = ic_interaction_id r, ci_session_id = sid,
                       ci_user_id = uid, ci_messages = [],
                       ci_created_at = format_timestamp (now w)\<rparr>,
                      Some (now w + REDIS_TTL_INTERACTION cfg)))
              else redis_interaction w)"
  using assms
  by (auto simp: create_interaction_def io_defs redis_defs cache_defs mongo_defs util_defs ks_defs
      split: option.splits if_splits)

text \<open>
  What a prologue that passes leaves in the interactions collection and in the interaction
  cache. For an interaction named by the caller, the collection is as before and the only
  change in the cache is the refreshed time to live of that interaction's snapshot. For an
  interaction that the prologue created, the collection has the new document and the cache
  has, when Redis answers, the new snapshot, both without messages.
\<close>

lemma send_message_prologue_effect:
  assumes "0 < REDIS_TTL_INTERACTION cfg"
    and "fst (send_message_prologue cfg uid sido iido w) = Inr (sid, iid, history)"
  shows "if truthy iido
         then interactions_collection (snd (send_message_prologue cfg uid sido iido w))
                = interactions_collection w
            \<and> (\<exists>c e. redis_interaction w iid = Some (c, e)
                 \<and> redis_interaction (snd (send_message_prologue cfg uid sido iido w))
                     = (redis_interaction w)(iid \<mapsto> (c, Some (now w + REDIS_TTL_INTERACTION cfg))))
         else interactions_collection (snd (send_message_prologue cfg uid sido iido w))
                = interactions_collection w @
                    [\<lparr>i_interaction_id = iid, i_session_id = sid, i_user_id = uid,
                      i_messages = [], i_created_at = now w, i_updated_at = now w,
                      i_last_message_at = now w, i_is_active = True\<rparr>]
            \<and> redis_interaction (snd (send_message_prologue cfg uid sido iido w))
                = (if redis_up w
                   then (redis_interaction w)(iid \<mapsto>
                          (\<lparr>ci_interaction_id = iid, ci_session_id = sid, ci_user_id = uid,
                            ci_messages = [], ci_created_at = format_timestamp (now w)\<rparr>,
                           Some (now w + REDIS_TTL_INTERACTION cfg)))
                   else redis_interaction w)"
proof -
  let ?ttl = "REDIS_TTL_INTERACTION cfg"
  obtain r1 w1 where s1: "session_step cfg uid sido w = (r1, w1)"
    by (cases "session_step cfg uid sido w")
  have f1: "now w1 = now w" "redis_up w1 = redis_up w"
      "redis_interaction w1 = redis_interaction w"
      "interactions_collection w1 = interactions_collection w"
    using session_step_frame [of cfg uid sido w] s1 by simp_all
  obtain s where r1: "r1 = Inr s"
    using assms(2) s1 by (cases r1) (simp_all add: send_message_prologue_def io_defs)
  obtain r2 where s2: "expiry_step iido w1 = (r2, w1)"
    using expiry_step_frame [of iido w1] by (cases "expiry_step iido w1") simp
  obtain u where r2: "r2 = Inr u"
    using assms(2) s1 r1 s2 by (cases r2) (simp_all add: send_message_prologue_def io_defs)
  obtain r3 w2 where s3: "interaction_step cfg s uid iido w1 = (r3, w2)"
    by (cases "interaction_step cfg s uid iido w1")
  obtain i where r3: "r3 = Inr i"
    using assms(2) s1 r1 s2 r2 s3 by (cases r3) (simp_all add: send_message_prologue_def io_defs)
  obtain r4 w3 where s4: "get_interaction_messages cfg i w2 = (r4, w3)"
    by (cases "get_interaction_messages cfg i w2")
  have res: "s = sid" "i = iid" and w3: "snd (send_message_prologue cfg uid sido iido w) = w3"
    using assms(2) s1 r1 s2 r2 s3 r3 s4
    by (cases r4; simp add: send_message_prologue_def io_defs)+
  show ?thesis
  proof (cases "truthy iido")
    case True
    have w2: "w2 = w1" and iid: "iid = str_of iido"
      using s3 r3 True res by (simp_all add: interaction_step_def io_defs)
    have up: "redis_up w1" and live: "ks_get (now w1) (redis_interaction w1) iid \<noteq> None"
      using s2 r2 True iid
      by (auto simp: expiry_step_def check_interaction_expired_eq io_defs split: if_splits)
    from live obtain c where c: "ks_get (now w1) (redis_interaction w1) iid = Some c" by auto
    then obtain e where e: "redis_interaction w1 iid = Some (c, e)"
      by (auto simp: ks_get_def dest: ks_entry_SomeD)
    from get_interaction_messages_hit [OF up c assms(1)] s4 w2 res
    have "w3 = w1\<lparr>redis_interaction := (redis_interaction w1)(iid \<mapsto> (c, Some (now w1 + ?ttl)))\<rparr>"
      by simp
    then show ?thesis using True f1 e w3 by simp
  next
    case False
    obtain r where cr: "create_interaction cfg s uid w1 = (Inr r, w2)" and i: "i = ic_interaction_id r"
      using s3 r3 False by (auto simp: interaction_step_def io_defs split: sum.splits prod.splits)
    from create_interaction_returns [of cfg s uid w1 r] cr
    have eff: "now w2 = now w1" "redis_up w2 = redis_up w1"
        "interactions_collection w2
           = interactions_collection w1 @
               [\<lparr>i_interaction_id = ic_interaction_id r, i_session_id = s, i_user_id = uid,
                 i_messages = [], i_created_at = now w1, i_updated_at = now w1,
                 i_last_message_at = now w1, i_is_active = True\<rparr>]"
        "redis_interaction w2
           = (if redis_up w1 \<and> 0 < ?ttl
              then (redis_interaction w1)(ic_interaction_id r \<mapsto>
                     (\<lparr>ci_interaction_id = ic_interaction_id r, ci_session_id = s,
                       ci_user_id = uid, ci_messages = [],
                       ci_created_at = format_timestamp (now w1)\<rparr>,
                      Some (now w1 + ?ttl)))
              else redis_interaction w1)"
      by simp_all
    have docs: "interactions_collection w3 = interactions_collection w2"
      using get_interaction_messages_frame [of cfg i w2] s4 by simp
    have cache: "redis_interaction w3 = redis_interaction w2"
    proof (cases "redis_up w1")
      case True
      let ?c = "\<lparr>ci_interaction_id = ic_interaction_id r, ci_session_id = s,
                 ci_user_id = uid, ci_messages = [],
                 ci_created_at = format_timestamp (now w1)\<rparr>"
      have c: "redis_interaction w2 = (redis_interaction w1)(i \<mapsto> (?c, Some (now w1 + ?ttl)))"
        using eff(4) True assms(1) i by simp
      have "ks_get (now w2) (redis_interaction w2) i = Some ?c"
        using c eff(1) assms(1) by (simp add: ks_get_def ks_entry_def)
      from get_interaction_messages_hit [OF _ this assms(1)] True eff(1,2) s4 c
      show ?thesis by simp
    next
      case False
      then show ?thesis using get_interaction_messages_down [of w2 cfg i] s4 eff(2) by simp
    qed
    show ?thesis using False docs cache eff f1 res i w3 assms(1) by simp
  qed
qed

text \<open>
  Claim C9: when the Response Generator fails during \<^verbatim>\<open>send_message\<close>, the call raises the
  "generation failed" error and persists nothing: the message sequence of the interaction
  in the Durable Store and its cached snapshot are unchanged, and no partial pair is
  stored. The generator fails during the call when the steps before it pass, giving the
  session, the interaction and its history, and the endpoint refuses the conversation
  built from that history and the sanitised message; the interaction time to live is
  positive. The error is then
  \<^verbatim>\<open>Exception("Failed to send message: Failed to generate AI response: ...")\<close>, the text the
  route looks for. When the caller named the interaction, the interactions collection is
  the one from before the call, and so is the interaction cache but for the time to live of
  that interaction's snapshot, which reading the history has refreshed: the snapshot is the
  same, and no other key has changed. When the call created the interaction, the collection
  has gained that interaction's document and, if Redis answers, the cache has gained its
  snapshot, both with an empty message sequence, and nothing else has changed in either.
\<close>

theorem generation_failure_stores_no_pair:
  assumes "0 < REDIS_TTL_INTERACTION cfg"
    and "fst (send_message_prologue cfg user_id session_id interaction_id w) = Inr (sid, iid, history)"
    and "chat_completion w (format_conversation_history history (sanitize_message message 10000))
           = Inl err"
  shows "fst (send_message cfg user_id message session_id interaction_id w)
           = Inl (Exception (''Failed to send message: Failed to generate AI response: '' @ err))
       \<and> (if truthy interaction_id
          then interactions_collection (snd (send_message cfg user_id message session_id interaction_id w))
                 = interactions_collection w
             \<and> (\<exists>c e. redis_interaction w iid = Some (c, e)
                  \<and> redis_interaction (snd (send_message cfg user_id message session_id interaction_id w))
                      = (redis_interaction w)(iid \<mapsto> (c, Some (now w + REDIS_TTL_INTERACTION cfg))))
          else interactions_collection (snd (send_message cfg user_id message session_id interaction_id w))
                 = interactions_collection w @
                     [\<lparr>i_interaction_id = iid, i_session_id = sid, i_user_id = user_id,
                       i_messages = [], i_created_at = now w, i_updated_at = now w,
                       i_last_message_at = now w, i_is_active = True\<rparr>]
             \<and> redis_interaction (snd (send_message cfg user_id message session_id interaction_id w))
                 = (if redis_up w
                    then (redis_interaction w)(iid \<mapsto>
                           (\<lparr>ci_interaction_id = iid, ci_session_id = sid, ci_user_id = user_id,
                             ci_messages = [], ci_created_at = format_timestamp (now w)\<rparr>,
                            Some (now w + REDIS_TTL_INTERACTION cfg)))
                    else redis_interaction w))"
proof -
  obtain w' where p: "send_message_prologue cfg user_id session_id interaction_id w
                        = (Inr (sid, iid, history), w')"
    using assms(2) by (cases "send_message_prologue cfg user_id session_id interaction_id w") simp
  have w': "snd (send_message_prologue cfg user_id session_id interaction_id w) = w'"
    using p by simp
  have "chat_completion w' = chat_completion w"
    using send_message_prologue_frame [of cfg user_id session_id interaction_id w] w' by simp
  then have gen: "chat_completion w' (format_conversation_history history (sanitize_message message 10000))
               = Inl err"
    using assms(3) by simp
  have run: "send_message cfg user_id message session_id interaction_id w
               = (Inl (Exception (''Failed to send message: Failed to generate AI response: '' @ err)), w')"
    using p gen
    by (simp add: send_message_prologue_steps io_defs generate_response_eq send_message_handler_def)
  from send_message_prologue_effect [OF assms(1,2), unfolded w'] show ?thesis
    unfolding run by (cases "truthy interaction_id") simp_all
qed

theorem generation_failure_stores_no_pair_witness:
  "fst (send_message test_settings ''bob'' ''third'' (Some ''session_a'') (Some ''interaction_aa'')
          (generator_down bob_world))
     = Inl (Exception (''Failed to send message: Failed to generate AI response: '' @
                       ''503 Service Unavailable''))
   \<and> interactions_collection
        (snd (send_message test_settings ''bob'' ''third'' (Some ''session_a'') (Some ''interaction_aa'')
               (generator_down bob_world)))
     = interactions_collection (generator_down bob_world)
   \<and> (\<exists>c e. redis_interaction (generator_down bob_world) ''interaction_aa'' = Some (c, e)
         \<and> map m_user_message (ci_messages c) = [''first'', ''second'']
         \<and> redis_interaction
              (snd (send_message test_settings ''bob'' ''third'' (Some ''session_a'')
                     (Some ''interaction_aa'') (generator_down bob_world)))
           = (redis_interaction (generator_down bob_world))(''interaction_aa'' \<mapsto> (c, Some 2800)))
   \<and> fst (send_message test_settings ''bob'' ''first'' None None (generator_down empty_world))
     = Inl (Exception (''Failed to send message: Failed to generate AI response: '' @
                       ''503 Service Unavailable''))
   \<and> interactions_collection
        (snd (send_message test_settings ''bob'' ''first'' None None (generator_down empty_world)))
     = [\<lparr>i_interaction_id = ''interaction_aa'', i_session_id = ''session_a'', i_user_id = ''bob'',
         i_messages = [], i_created_at = 1000, i_updated_at = 1000, i_last_message_at = 1000,
         i_is_active = True\<rparr>]
   \<and> redis_interaction
        (snd (send_message test_settings ''bob'' ''first'' None None (generator_down empty_world)))
     = [''interaction_aa'' \<mapsto>
          (\<lparr>ci_interaction_id = ''interaction_aa'', ci_session_id = ''session_a'',
            ci_user_id = ''bob'', ci_messages = [], ci_created_at = IsoZ 1000\<rparr>, Some 2800)]"
proof -
  have h0: "0 < REDIS_TTL_INTERACTION test_settings"
    by (simp add: test_settings_def default_settings_def)
  have h1: "fst (send_message_prologue test_settings ''bob'' (Some ''session_a'') (Some ''interaction_aa'')
                  (generator_down bob_world))
              = Inr (''session_a'', ''interaction_aa'',
                     ci_messages (fst (the (redis_interaction bob_world ''interaction_aa''))))"
    by (simp add: send_message_prologue_def session_step_def expiry_step_def interaction_step_def
        generator_down_def run_defs)
  have h2: "chat_completion (generator_down bob_world)
              (format_conversation_history
                 (ci_messages (fst (the (redis_interaction bob_world ''interaction_aa''))))
                 (sanitize_message ''third'' 10000))
            = Inl ''503 Service Unavailable''"
    by (simp add: generator_down_def)
  have t: "now (generator_down bob_world) = 1000" "REDIS_TTL_INTERACTION test_settings = 1800"
    by (simp_all add: generator_down_def run_defs)
  have before: "map m_user_message
                  (ci_messages (fst (the (redis_interaction (generator_down bob_world) ''interaction_aa''))))
                = [''first'', ''second'']"
    by (simp add: generator_down_def run_defs)
  have h3: "fst (send_message_prologue test_settings ''bob'' None None (generator_down empty_world))
              = Inr (''session_a'', ''interaction_aa'', [])"
    by (simp add: send_message_prologue_def session_step_def expiry_step_def interaction_step_def
        generator_down_def empty_world_def test_settings_def default_settings_def run_defs)
  have h4: "chat_completion (generator_down empty_world)
              (format_conversation_history [] (sanitize_message ''first'' 10000))
            = Inl ''503 Service Unavailable''"
    by (simp add: generator_down_def)
  have t': "now (generator_down empty_world) = 1000" "redis_up (generator_down empty_world)"
      "interactions_collection (generator_down empty_world) = []"
      "redis_interaction (generator_down empty_world) = Map.empty"
    by (simp_all add: generator_down_def empty_world_def)
  from generation_failure_stores_no_pair [OF h0 h1 h2] before
  have a: "fst (send_message test_settings ''bob'' ''third'' (Some ''session_a'') (Some ''interaction_aa'')
          (generator_down bob_world))
     = Inl (Exception (''Failed to send message: Failed to generate AI response: '' @
                       ''503 Service Unavailable''))
   \<and> interactions_collection
        (snd (send_message test_settings ''bob'' ''third'' (Some ''session_a'') (Some ''interaction_aa'')
               (generator_down bob_world)))
     = interactions_collection (generator_down bob_world)
   \<and> (\<exists>c e. redis_interaction (generator_down bob_world) ''interaction_aa'' = Some (c, e)
         \<and> map m_user_message (ci_messages c) = [''first'', ''second'']
         \<and> redis_interaction
              (snd (send_message test_settings ''bob'' ''third'' (Some ''session_a'')
                     (Some ''interaction_aa'') (generator_down bob_world)))
           = (redis_interaction (generator_down bob_world))(''interaction_aa'' \<mapsto> (c, Some 2800)))"
    by (auto simp: t)
  from generation_failure_stores_no_pair [OF h0 h3 h4] a show ?thesis
    by (simp add: t t' format_timestamp_def)
qed

section \<open>Session cache\<close>

text \<open>
  \<^verbatim>\<open>update_one\<close> rewrites the first document that matches, and a later \<^verbatim>\<open>find_one\<close> with a
  narrower filter finds the rewritten document.
\<close>

lemma find_update_first:
  assumes "find P xs = Some d" and "P (f d)" and "Q (f d)"
  shows "find (\<lambda>x. P x \<and> Q x) (update_first P f xs) = Some (f d)"
  using assms by (induction xs) (auto split: if_splits)

text \<open>
  A \<^verbatim>\<open>create_interaction\<close> that returns while Redis answers has deleted the session's cache
  entry and has appended the new identifier to the session's document; the Durable Store
  answered, or the call would have raised.
\<close>

lemma create_interaction_success:
  assumes "redis_up w"
    and "fst (create_interaction cfg sid uid w) = Inr r"
  shows "redis_session (snd (create_interaction cfg sid uid w)) sid = None
       \<and> mongo_up (snd (create_interaction cfg sid uid w))
       \<and> now (snd (create_interaction cfg sid uid w)) = now w
       \<and> sessions_collection (snd (create_interaction cfg sid uid w))
           = update_first (\<lambda>d. s_session_id d = sid)
               (\<lambda>d. d\<lparr>s_interaction_ids := s_interaction_ids d @ [ic_interaction_id r],
                       s_last_active := now w\<rparr>)
               (sessions_collection w)"
  using assms
  by (auto simp: create_interaction_def io_defs redis_defs cache_defs mongo_defs util_defs ks_defs
      split: option.splits if_splits)

text \<open>
  \<^verbatim>\<open>get_session\<close>, when Redis does not answer or serves no entry for the session, builds the
  snapshot from the stored document, with the current time as \<^verbatim>\<open>last_active\<close>.
\<close>

lemma get_session_fallback:
  assumes "mongo_up w" and "\<not> redis_up w \<or> ks_get (now w) (redis_session w) sid = None"
    and "find (\<lambda>d. s_session_id d = sid \<and> s_user_id d = uid) (sessions_collection w) = Some d"
  shows "fst (get_session cfg sid uid w)
           = Inr (Some \<lparr>cs_session_id = s_session_id d, cs_user_id = s_user_id d,
                        cs_interaction_ids = s_interaction_ids d,
                        cs_created_at = format_timestamp (s_created_at d),
                        cs_last_active = format_timestamp (now w)\<rparr>)"
  using assms
  by (auto simp: get_session_def io_defs redis_defs cache_defs mongo_defs util_defs Let_def)

text \<open>
  Claim C7: every successful \<^verbatim>\<open>create_interaction\<close> deletes the cache entry of the parent
  session, so that the next \<^verbatim>\<open>get_session\<close> for that session rebuilds the snapshot from the
  Durable Store and shows the new \<^verbatim>\<open>interaction_id\<close>. Not every one:
  \<^verbatim>\<open>CacheService.delete_session\<close> catches the error of a Redis that does not answer and
  returns \<^verbatim>\<open>False\<close>, and \<^verbatim>\<open>create_interaction\<close> does not look at what it returns. Bob creates
  an interaction in \<^verbatim>\<open>session_a\<close> while Redis is down. The call returns the new identifier,
  and the session's document has it; the session's cache entry, written before the outage,
  is still there with the old list, and a minute later, Redis answering again,
  \<^verbatim>\<open>get_session\<close> is a cache hit that returns the old list.
\<close>

theorem create_interaction_keeps_session_cache_during_outage:
  "fst (create_interaction test_settings ''session_a'' ''bob'' (bob_world\<lparr>redis_up := False\<rparr>))
     = Inr \<lparr>ic_interaction_id = ''interaction_aaaaa'', ic_session_id = ''session_a'',
            ic_created_at = IsoZ 1000, ic_messages_count = 0\<rparr>
   \<and> map s_interaction_ids (sessions_collection cache_outage_world)
     = [[''interaction_aa'', ''interaction_aaaaa'']]
   \<and> redis_session cache_outage_world ''session_a''
     = Some (\<lparr>cs_session_id = ''session_a'', cs_user_id = ''bob'',
              cs_interaction_ids = [''interaction_aa''], cs_created_at = IsoZ 1000,
              cs_last_active = IsoZ 1000\<rparr>, Some 87400)
   \<and> fst (get_session test_settings ''session_a'' ''bob''
            (advance 60 (cache_outage_world\<lparr>redis_up := True\<rparr>)))
     = Inr (Some \<lparr>cs_session_id = ''session_a'', cs_user_id = ''bob'',
                  cs_interaction_ids = [''interaction_aa''], cs_created_at = IsoZ 1000,
                  cs_last_active = IsoZ 1000\<rparr>)"
  by (simp add: cache_outage_world_def run_defs)

text \<open>
  Claim C7, amended: every successful \<^verbatim>\<open>create_interaction\<close> during which Redis answers
  deletes the cache entry of the parent session instead of patching it: after the call the
  cache holds nothing under the session's key, whatever it held before. If the session is
  stored under that identifier, the next \<^verbatim>\<open>get_session\<close> for it by its owner, any time \<open>dt\<close>
  later and whether or not Redis answers then, the Durable Store still answering, returns
  the snapshot rebuilt from the stored session, with the new identifier at the end of its
  list.
\<close>

theorem create_interaction_invalidates_session_cache:
  assumes "redis_up w"
    and "fst (create_interaction cfg session_id user_id w) = Inr r"
  shows "redis_session (snd (create_interaction cfg session_id user_id w)) session_id = None
       \<and> (\<forall>d dt up.
             find (\<lambda>d. s_session_id d = session_id) (sessions_collection w) = Some d \<longrightarrow>
             fst (get_session cfg session_id (s_user_id d)
                    ((advance dt (snd (create_interaction cfg session_id user_id w)))
                       \<lparr>redis_up := up\<rparr>))
               = Inr (Some \<lparr>cs_session_id = session_id, cs_user_id = s_user_id d,
                            cs_interaction_ids = s_interaction_ids d @ [ic_interaction_id r],
                            cs_created_at = format_timestamp (s_created_at d),
                            cs_last_active = format_timestamp (now w + dt)\<rparr>))"
proof -
  let ?w' = "snd (create_interaction cfg session_id user_id w)"
  let ?f = "\<lambda>d. d\<lparr>s_interaction_ids := s_interaction_ids d @ [ic_interaction_id r],
                   s_last_active := now w\<rparr>"
  note s = create_interaction_success [OF assms]
  have "fst (get_session cfg session_id (s_user_id d) ((advance dt ?w')\<lparr>redis_up := up\<rparr>))
          = Inr (Some \<lparr>cs_session_id = session_id, cs_user_id = s_user_id d,
                       cs_interaction_ids = s_interaction_ids d @ [ic_interaction_id r],
                       cs_created_at = format_timestamp (s_created_at d),
                       cs_last_active = format_timestamp (now w + dt)\<rparr>)"
    if stored: "find (\<lambda>d. s_session_id d = session_id) (sessions_collection w) = Some d"
    for d dt up
  proof -
    let ?v = "(advance dt ?w')\<lparr>redis_up := up\<rparr>"
    have sid: "s_session_id d = session_id"
      using stored by (auto dest: find_Some_iff [THEN iffD1])
    have found: "find (\<lambda>x. s_session_id x = session_id \<and> s_user_id x = s_user_id d)
                   (sessions_collection ?w') = Some (?f d)"
      using s find_update_first [OF stored, of ?f "\<lambda>x. s_user_id x = s_user_id d"] sid
      by simp
    have "mongo_up ?v"
        "\<not> redis_up ?v \<or> ks_get (now ?v) (redis_session ?v) session_id = None"
        "find (\<lambda>x. s_session_id x = session_id \<and> s_user_id x = s_user_id d)
           (sessions_collection ?v) = Some (?f d)"
        "now ?v = now w + dt"
      using s found by (simp_all add: advance_def ks_get_def ks_entry_def)
    from get_session_fallback [OF this(1,2,3), of cfg] this(4) sid
    show ?thesis by simp
  qed
  then show ?thesis using s by simp
qed

theorem create_interaction_invalidates_session_cache_witness:
  "redis_session (snd (create_interaction test_settings ''session_a'' ''bob'' bob_world)) ''session_a''
     = None
   \<and> fst (get_session test_settings ''session_a'' ''bob''
            ((advance 60 (snd (create_interaction test_settings ''session_a'' ''bob'' bob_world)))
               \<lparr>redis_up := True\<rparr>))
     = Inr (Some \<lparr>cs_session_id = ''session_a'', cs_user_id = ''bob'',
                  cs_interaction_ids = [''interaction_aa'', ''interaction_aaaaa''],
                  cs_created_at = IsoZ 1000, cs_last_active = IsoZ 1060\<rparr>)"
proof -
  let ?d = "\<lparr>s_session_id = ''session_a'', s_user_id = ''bob'',
             s_interaction_ids = [''interaction_aa''], s_created_at = 1000,
             s_last_active = 1000, s_is_active = True\<rparr>"
  have h1: "redis_up bob_world"
    and h2: "fst (create_interaction test_settings ''session_a'' ''bob'' bob_world)
               = Inr \<lparr>ic_interaction_id = ''interaction_aaaaa'', ic_session_id = ''session_a'',
                      ic_created_at = IsoZ 1000, ic_messages_count = 0\<rparr>"
    and h3: "find (\<lambda>d. s_session_id d = ''session_a'') (sessions_collection bob_world) = Some ?d"
    by (simp_all add: run_defs)
  have t: "now bob_world = 1000"
    by (simp add: run_defs)
  from create_interaction_invalidates_session_cache [OF h1 h2] h3 show ?thesis
    by (simp add: t format_timestamp_def)
qed

section \<open>Cache hit and fallback\<close>

























text \<open>
  The invariant does not look at the clock, the interactions or the rate counters, and it
  survives the drawing of identifiers and the growth of \<open>S\<close>.
\<close>

lemma same_sessions_refl: "same_sessions w w"
  by (simp add: same_sessions_def)

lemma same_sessions_trans: "same_sessions w w' \<Longrightarrow> same_sessions w' w'' \<Longrightarrow> same_sessions w w''"
  by (simp add: same_sessions_def)



text \<open>
  Operations that leave the sessions collection and the session cache alone: sequencing,
  handlers and branches of such operations, the commands on interactions, on their
  snapshots and on the rate counters, and the generator.
\<close>

lemma framesD: "frames m \<Longrightarrow> same_sessions w (snd (m w))"
  by (simp add: frames_def)

lemma frames_return: "frames (io_return x)"
  by (simp add: frames_def io_return_def same_sessions_refl)

lemma frames_raise: "frames (io_raise e)"
  by (simp add: frames_def io_raise_def same_sessions_refl)

lemma frames_bind:
  assumes "frames m" and "\<And>x. frames (f x)"
  shows "frames (io_bind m f)"
  unfolding frames_def
proof
  fix w
  obtain r w' where m: "m w = (r, w')" by (cases "m w")
  have w': "same_sessions w w'" using framesD [OF assms(1), of w] m by simp
  show "same_sessions w (snd (io_bind m f w))"
  proof (cases r)
    case (Inl e)
    then show ?thesis using m w' by (simp add: io_bind_def)
  next
    case (Inr x)
    then show ?thesis
      using m same_sessions_trans [OF w' framesD [OF assms(2), of w' x]] by (simp add: io_bind_def)
  qed
qed

lemma frames_try:
  assumes "frames m" and "\<And>e. frames (h e)"
  shows "frames (io_try m h)"
  unfolding frames_def
proof
  fix w
  obtain r w' where m: "m w = (r, w')" by (cases "m w")
  have w': "same_sessions w w'" using framesD [OF assms(1), of w] m by simp
  show "same_sessions w (snd (io_try m h w))"
  proof (cases r)
    case (Inl e)
    then show ?thesis
      using m same_sessions_trans [OF w' framesD [OF assms(2), of w' e]] by (simp add: io_try_def)
  next
    case (Inr x)
    then show ?thesis using m w' by (simp add: io_try_def)
  qed
qed

lemma frames_if: "frames a \<Longrightarrow> frames b \<Longrightarrow> frames (if c then a else b)"
  by simp

lemma frames_case_option:
  "frames a \<Longrightarrow> (\<And>y. frames (b y)) \<Longrightarrow> frames (case x of None \<Rightarrow> a | Some y \<Rightarrow> b y)"
  by (cases x) simp_all

lemma frames_let: "(\<And>y. frames (b y)) \<Longrightarrow> frames (let y = x in b y)"
  by simp

lemma frames_clock: "frames get_current_timestamp"
  by (simp add: frames_def same_sessions_def get_current_timestamp_def)

lemma frames_uuid: "frames generate_uuid"
  by (simp add: frames_def same_sessions_def generate_uuid_def)

lemma frames_generate_message_id: "frames generate_message_id"
  unfolding generate_message_id_def by (intro frames_bind frames_uuid frames_return)

lemma frames_generate_interaction_id: "frames generate_interaction_id"
  unfolding generate_interaction_id_def by (intro frames_bind frames_uuid frames_return)

lemma frames_interaction_document: "frames (interaction_document i s u)"
  by (simp add: frames_def same_sessions_def interaction_document_def)

lemma frames_message_pair: "frames (message_pair i u a)"
  by (simp add: frames_def same_sessions_def message_pair_def)

lemma frames_format_timestamp_field: "frames (format_timestamp_field ts)"
  unfolding format_timestamp_field_def by (cases ts) (simp_all add: frames_return frames_raise)

lemma frames_generate_response: "frames (generate_response msgs)"
  by (simp add: frames_def same_sessions_def generate_response_def io_defs split: sum.split)

lemma frames_interactions_insert_one: "frames (interactions_insert_one doc)"
  by (simp add: frames_def same_sessions_def interactions_insert_one_def mongo_cmd_def io_defs
      split: option.split)

lemma frames_interactions_find_one: "frames (interactions_find_one P)"
  by (simp add: frames_def same_sessions_def interactions_find_one_def mongo_cmd_def)

lemma frames_interactions_update_one: "frames (interactions_update_one P f)"
  by (simp add: frames_def same_sessions_def interactions_update_one_def mongo_cmd_def)

lemma frames_interactions_delete_one: "frames (interactions_delete_one P)"
  by (simp add: frames_def same_sessions_def interactions_delete_one_def mongo_cmd_def)

lemma frames_cache_interaction: "frames (cache_interaction cfg i c)"
  by (simp add: frames_def same_sessions_def cache_interaction_def interaction_setex_def
      redis_setex_check_def redis_cmd_def io_defs)

lemma frames_cache_get_interaction: "frames (cache_get_interaction cfg i)"
  by (simp add: frames_def same_sessions_def cache_get_interaction_def interaction_get_def
      interaction_expire_def redis_cmd_def io_defs split: option.split)

lemma frames_cache_delete_interaction: "frames (cache_delete_interaction i)"
  by (simp add: frames_def same_sessions_def cache_delete_interaction_def interaction_delete_def
      redis_cmd_def io_defs)

lemma frames_check_interaction_expired: "frames (check_interaction_expired i)"
  by (simp add: frames_def same_sessions_def check_interaction_expired_eq)

lemma frames_check_rate_limit: "frames (check_rate_limit cfg u)"
  by (simp add: frames_def same_sessions_def check_rate_limit_def rate_limit_get_def
      rate_limit_setex_def rate_limit_incr_def redis_setex_check_def redis_cmd_def io_defs
      split: option.split)

lemmas frames_intros =
  frames_bind frames_try frames_if frames_case_option frames_let frames_return frames_raise
  frames_clock frames_uuid frames_generate_message_id frames_generate_interaction_id
  frames_interaction_document frames_message_pair frames_format_timestamp_field
  frames_generate_response frames_interactions_insert_one frames_interactions_find_one
  frames_interactions_update_one frames_interactions_delete_one frames_cache_interaction
  frames_cache_get_interaction frames_cache_delete_interaction frames_check_interaction_expired
  frames_check_rate_limit



lemma frames_expiry_step: "frames (expiry_step iid)"
  unfolding expiry_step_def by (intro frames_intros)
























text \<open>
  Bob's world is reached with no session in \<open>S\<close>, and the world in which he has deleted his
  interaction with his session in \<open>S\<close>.
\<close>

lemma bob_world_reached: "reached test_settings {} bob_world"
proof -
  have keep: "(case p of Inl e \<Rightarrow> {} | Inr (sid, iid, history) \<Rightarrow> if b then {} else {sid}) = {}"
    if b for p :: "exn + string \<times> string \<times> message list" and b
    using that by (cases p) auto
  have up: "redis_up empty_world" by (simp add: empty_world_def)
  have named: "truthy (Some ''interaction_aa'')" by simp
  have "reached test_settings {} empty_world"
    by (rule reached.start) (simp_all add: empty_world_def inj_def)
  from reached.send_message [OF this, where user_id = "''bob''" and message = "''first''"
      and session_id = None and interaction_id = None]
  have "reached test_settings {}
          (snd (send_message test_settings ''bob'' ''first'' None None empty_world))"
    by (simp only: keep [OF disjI1 [OF up]])
  from reached.send_message [OF this, where user_id = "''bob''" and message = "''second''"
      and session_id = "Some ''session_a''" and interaction_id = "Some ''interaction_aa''"]
  show ?thesis
    by (simp only: keep [OF disjI2 [OF named]] bob_world_def)
qed

lemma stale_world_reached: "reached test_settings {''session_a''} stale_world"
proof -
  have "deleted_in ''bob'' ''interaction_aa'' bob_world = {''session_a''}"
    by (simp add: deleted_in_def run_defs)
  with reached.delete_interaction [OF bob_world_reached, of "''bob''" "''interaction_aa''"]
  show ?thesis by (simp add: stale_world_def)
qed




end
